theory Spec2Isabelle
  imports Main "HOL-Library.AList" "HOL-Library.Sublist"
begin

section \<open>The command-line driver \<open>bin/cli.js\<close> of taro2-to-3\<close>

text \<open>
  The driver is a sequence of awaited calls: it checks the git state, builds the project
  model, rewrites the build configuration and the entry file, runs the three jscodeshift
  passes, reads the dependency markers, writes a babel configuration and reconciles the
  dependencies of the manifest. The model below follows \<open>bin/cli.js\<close> function by
  function. What the driver imports (the \<open>Project\<close> class, the marker module, the
  registry \<open>taroDeps\<close>, \<open>execa\<close>, \<open>fs\<close>, \<open>ejs\<close>, \<open>inquirer\<close>, \<open>read-pkg-up\<close>,
  \<open>is-git-clean\<close>, \<open>path\<close>, \<open>os\<close>) is a field of the record \<open>sys\<close>: a function of an
  abstract world that returns either an error or a value, and the next world.
\<close>

subsection \<open>Text helpers\<close>

text \<open>\<open>Array.prototype.join\<close> on an array of strings.\<close>

fun join :: "string \<Rightarrow> string list \<Rightarrow> string" where
  "join sep [] = []"
| "join sep [x] = x"
| "join sep (x # y # ys) = x @ sep @ join sep (y # ys)"

definition nl :: string where
  "nl = [CHR 0x0A]"

text \<open>\<open>String.prototype.toLowerCase\<close>, on the ASCII letters (a character is a byte here).\<close>

definition toLowerCase :: "string \<Rightarrow> string" where
  "toLowerCase t =
     map (\<lambda>c. let n = (of_char c :: nat) in if 65 \<le> n \<and> n \<le> 90 then char_of (n + 32) else c) t"

text \<open>\<open>String.prototype.includes\<close>: the needle occurs somewhere in the text.\<close>

fun str_includes :: "string \<Rightarrow> string \<Rightarrow> bool" where
  "str_includes [] needle = (needle = [])"
| "str_includes (c # cs) needle = (take (length needle) (c # cs) = needle \<or> str_includes cs needle)"

text \<open>A JavaScript string is truthy when it is present and not empty.\<close>

definition truthy :: "string option \<Rightarrow> bool" where
  "truthy v = (case v of None \<Rightarrow> False | Some t \<Rightarrow> t \<noteq> [])"

subsection \<open>Data\<close>

text \<open>An argument of a child process: \<open>getRunnerArgs\<close> pushes strings and one number.\<close>

datatype arg = ArgStr string | ArgNum nat

text \<open>A thrown value: an \<open>Error\<close> with its message, and the \<open>stderr\<close> a failed child
  process attaches to it.\<close>

record err =
  message :: string
  stderr :: "string option"

text \<open>The fields of the \<open>Project\<close> object that the driver reads.\<close>

record project =
  sourceRoot :: string
  pages :: "string list"

text \<open>The options \<open>yargs-parser\<close> returns, as far as the driver reads them;
  \<open>opt_pages\<close> is \<open>args.pages\<close>.\<close>

record options =
  force :: bool
  cpus :: "nat option"
  gitignore :: "string option"
  style :: bool
  opt_pages :: "string option"

text \<open>The object \<open>marker.output()\<close> resolves to: counts by dependency name, in the
  order \<open>Object.keys\<close> lists them.\<close>

type_synonym markers = "(string \<times> int) list"

text \<open>\<open>packageJson\<close>: a dependency property is absent or an object from dependency names
  to version ranges.\<close>

type_synonym manifest = "string \<Rightarrow> (string \<Rightarrow> string option) option"

text \<open>The registry \<open>./taroDeps\<close> (its table is not part of the sources at hand, so it is
  a parameter): the packages to install, the names to upgrade, the names to remove.\<close>

record installDep =
  dep_name :: string
  dep_version :: string
  dep_dev :: bool

record taroDeps =
  install :: "installDep list"
  upgrade :: "string list"
  deprecated :: "string list"

definition transformers :: "string list" where
  "transformers = [''router'', ''taro-imports'', ''page-config'']"

definition dependencyProperties :: "string list" where
  "dependencyProperties =
     [''dependencies'', ''devDependencies'', ''clientDependencies'',
      ''isomorphicDependencies'', ''buildDependencies'']"

definition expectVersion :: string where
  "expectVersion = ''^3.1.1''"

subsection \<open>\<open>semver/functions/satisfies\<close>\<close>

text \<open>
  \<open>satisfies(version, range)\<close> of the semver package (a dependency, not part of this
  repository) answers false unless its first argument parses as a version: \<open>Range.test\<close>
  builds \<open>new SemVer(version)\<close> and returns false when that throws, and the constructor
  throws unless the trimmed text matches \<open>v?MAJOR.MINOR.PATCH...\<close>. The model keeps the
  first step of that grammar: after leading ASCII white space, an optional \<open>v\<close> and then
  a digit. A text that starts with a character outside ASCII is not judged here.
  Everything else the library decides (the rest of the version grammar, the range
  grammar, the comparison) is the parameter \<open>rest\<close>.
\<close>

definition isSpace :: "char \<Rightarrow> bool" where
  "isSpace c = ((of_char c :: nat) \<in> {9, 10, 11, 12, 13, 32})"

definition isDigit :: "char \<Rightarrow> bool" where
  "isDigit c = (48 \<le> (of_char c :: nat) \<and> (of_char c :: nat) \<le> 57)"

definition versionHead :: "string \<Rightarrow> bool" where
  "versionHead t =
     (case dropWhile isSpace t of
        [] \<Rightarrow> False
      | c # cs \<Rightarrow>
          if (of_char c :: nat) \<ge> 128 then True
          else if c = CHR ''v'' then (case cs of [] \<Rightarrow> False | d # _ \<Rightarrow> isDigit d)
          else isDigit c)"

definition semverSatisfies :: "(string \<Rightarrow> string \<Rightarrow> bool) \<Rightarrow> string \<Rightarrow> string \<Rightarrow> bool" where
  "semverSatisfies rest version versionRange = (versionHead version \<and> rest version versionRange)"

subsection \<open>The dependency scan of \<open>checkDependencies\<close>\<close>

text \<open>
  Lines 187 to 209. \<open>upgradeDeps\<close> is an object without prototype, filled by assignment:
  an association list in the order of first assignment (the names of the registry are
  package names, not array indices, so \<open>Object.keys\<close> keeps that order). \<open>deprecatedDeps\<close>
  is an array filled by \<open>push\<close>.
\<close>

type_synonym upgradeDeps = "(string \<times> string \<times> string) list"

definition scanDeprecated :: "taroDeps \<Rightarrow> (string \<Rightarrow> string option) \<Rightarrow> string list \<Rightarrow> string list" where
  "scanDeprecated td deps deprecatedDeps =
     foldl (\<lambda>acc depName. if truthy (deps depName) then acc @ [depName] else acc)
       deprecatedDeps (deprecated td)"

definition scanUpgrade ::
  "(string \<Rightarrow> string \<Rightarrow> bool) \<Rightarrow> taroDeps \<Rightarrow> (string \<Rightarrow> string option) \<Rightarrow> upgradeDeps \<Rightarrow> upgradeDeps" where
  "scanUpgrade rest td deps upgradeDeps =
     foldl (\<lambda>acc depName.
         case deps depName of
           None \<Rightarrow> acc
         | Some versionRange \<Rightarrow>
             if versionRange \<noteq> [] \<and> \<not> semverSatisfies rest expectVersion versionRange
             then AList.update depName (versionRange, expectVersion) acc
             else acc)
       upgradeDeps (upgrade td)"

definition scanDependencies ::
  "(string \<Rightarrow> string \<Rightarrow> bool) \<Rightarrow> taroDeps \<Rightarrow> manifest \<Rightarrow> upgradeDeps \<times> string list" where
  "scanDependencies rest td packageJson =
     foldl (\<lambda>(upgradeDeps, deprecatedDeps) property.
         case packageJson property of
           None \<Rightarrow> (upgradeDeps, deprecatedDeps)
         | Some deps \<Rightarrow>
             (scanUpgrade rest td deps upgradeDeps, scanDeprecated td deps deprecatedDeps))
       ([], []) dependencyProperties"

subsection \<open>The data of the babel template\<close>

text \<open>
  Lines 151 to 153 of \<open>renderBabelConfig\<close>: the object handed to \<open>ejs.renderFile\<close>, as the
  list of its keys and values. A key the marker object lacks reads as \<open>undefined\<close>, and
  \<open>undefined > 0\<close> is false.
\<close>

definition babelTemplateData :: "markers \<Rightarrow> (string \<times> bool) list" where
  "babelTemplateData dependenciesMarkers =
     [(''shouldUseConstEnumPlugin'',
       (case map_of dependenciesMarkers ''babel-plugin-const-enum'' of
          None \<Rightarrow> False
        | Some n \<Rightarrow> n > 0))]"

subsection \<open>Effects: the world, the trace, and the three ways a call ends\<close>

text \<open>
  An awaited call returns a value, throws (a rejected promise), or ends the process
  (\<open>process.exit\<close>). The state is the abstract world the imported functions act on,
  and the trace: every console output and every call of an imported function with its
  result, in program order. The trace only records; nothing reads it.
\<close>

datatype 'a res = Ok 'a | Throw err | Exit nat

datatype call =
    IsGitClean
  | NewProject string
  | TransformAndOverwriteConfig
  | TransformEntry
  | MarkerStart
  | MarkerOutput
  | Execa string "arg list"
  | AppendFileSync string "err + string"
  | ExistsSync string
  | RenderFile string "(string \<times> bool) list"
  | WriteFile string string
  | ReadPkgUp string
  | Prompt

datatype retval =
    Failed err
  | RUnit
  | RBool bool
  | RProject project
  | RMarkers markers
  | RString string
  | RFound bool

datatype event =
    Log string
  | LogTransform string
  | LogRunning "arg list"
  | LogError err
  | LogTable "string list list"
  | Call call
  | Return call retval
  | ProcExit nat

record 'w st =
  world :: 'w
  trace :: "event list"

record 'w sys =
  node_env :: "string option"
  argv :: options
  cwd :: string
  dirname :: string
  jscodeshiftBin :: string
  os_cpus :: nat
  os_EOL :: string
  path_join :: "string \<Rightarrow> string \<Rightarrow> string"
  taroDepsTable :: taroDeps
  semverRest :: "string \<Rightarrow> string \<Rightarrow> bool"
  isGitClean :: "'w \<Rightarrow> (err + bool) \<times> 'w"
  newProject :: "string \<Rightarrow> 'w \<Rightarrow> (err + project) \<times> 'w"
  transformAndOverwriteConfig :: "project \<Rightarrow> 'w \<Rightarrow> (err + project) \<times> 'w"
  transformEntry :: "project \<Rightarrow> 'w \<Rightarrow> (err + project) \<times> 'w"
  marker_start :: "'w \<Rightarrow> (err + unit) \<times> 'w"
  marker_output :: "'w \<Rightarrow> (err + markers) \<times> 'w"
  execa :: "string \<Rightarrow> arg list \<Rightarrow> 'w \<Rightarrow> (err + unit) \<times> 'w"
  appendFileSync :: "string \<Rightarrow> err + string \<Rightarrow> 'w \<Rightarrow> (err + unit) \<times> 'w"
  existsSync :: "string \<Rightarrow> 'w \<Rightarrow> bool"
  renderFile :: "string \<Rightarrow> (string \<times> bool) list \<Rightarrow> 'w \<Rightarrow> (err + string) \<times> 'w"
  writeFile :: "string \<Rightarrow> string \<Rightarrow> 'w \<Rightarrow> (err + unit) \<times> 'w"
  readPkgUp :: "string \<Rightarrow> 'w \<Rightarrow> (err + manifest option) \<times> 'w"
  prompt :: "'w \<Rightarrow> (err + string) \<times> 'w"

type_synonym ('w, 'a) io = "'w st \<Rightarrow> 'a res \<times> 'w st"

definition ret :: "'a \<Rightarrow> ('w, 'a) io" where
  "ret a s = (Ok a, s)"

definition exit :: "nat \<Rightarrow> ('w, 'a) io" where
  "exit n s = (Exit n, s\<lparr>trace := trace s @ [ProcExit n]\<rparr>)"

definition emit :: "event \<Rightarrow> ('w, unit) io" where
  "emit ev s = (Ok (), s\<lparr>trace := trace s @ [ev]\<rparr>)"

text \<open>Sequencing (\<open>await\<close> and the semicolon): a throw or an exit skips what follows.\<close>

definition andThen :: "('w, 'a) io \<Rightarrow> ('a \<Rightarrow> ('w, 'b) io) \<Rightarrow> ('w, 'b) io" where
  "andThen m f s =
     (case m s of
        (Ok a, s') \<Rightarrow> f a s'
      | (Throw e, s') \<Rightarrow> (Throw e, s')
      | (Exit n, s') \<Rightarrow> (Exit n, s'))"

text \<open>\<open>try { m } catch (e) { h e }\<close>: a throw is handled, an exit is not.\<close>

definition tryCatch :: "('w, 'a) io \<Rightarrow> (err \<Rightarrow> ('w, 'a) io) \<Rightarrow> ('w, 'a) io" where
  "tryCatch m h s =
     (case m s of
        (Throw e, s') \<Rightarrow> h e s'
      | (Ok a, s') \<Rightarrow> (Ok a, s')
      | (Exit n, s') \<Rightarrow> (Exit n, s'))"

text \<open>A call of an imported function: the trace gets the call and what it returned.\<close>

definition invoke :: "call \<Rightarrow> ('a \<Rightarrow> retval) \<Rightarrow> ('w \<Rightarrow> (err + 'a) \<times> 'w) \<Rightarrow> ('w, 'a) io" where
  "invoke c rv f s =
     (case f (world s) of
        (Inl e, w') \<Rightarrow> (Throw e, s\<lparr>world := w', trace := trace s @ [Call c, Return c (Failed e)]\<rparr>)
      | (Inr a, w') \<Rightarrow> (Ok a, s\<lparr>world := w', trace := trace s @ [Call c, Return c (rv a)]\<rparr>))"

text \<open>\<open>for (const x of xs) { await f(x) }\<close>.\<close>

fun forEachM :: "('a \<Rightarrow> ('w, unit) io) \<Rightarrow> 'a list \<Rightarrow> ('w, unit) io" where
  "forEachM f [] s = (Ok (), s)"
| "forEachM f (x # xs) s =
     (case f x s of
        (Ok _, s') \<Rightarrow> forEachM f xs s'
      | (Throw e, s') \<Rightarrow> (Throw e, s')
      | (Exit n, s') \<Rightarrow> (Exit n, s'))"

subsection \<open>\<open>ensureGitClean\<close>\<close>

definition ensureGitClean :: "'w sys \<Rightarrow> ('w, unit) io" where
  "ensureGitClean sys =
     andThen
       (tryCatch (invoke IsGitClean RBool (isGitClean sys))
          (\<lambda>err. ret (case stderr err of
                         None \<Rightarrow> False
                       | Some t \<Rightarrow> t \<noteq> [] \<and> str_includes (toLowerCase t) ''not a git repository'')))
       (\<lambda>clean.
          if \<not> clean then
            andThen (emit (Log ''Sorry that there are still some git changes'')) (\<lambda>_.
            andThen (emit (Log (nl @ '' you must commit or stash them firstly''))) (\<lambda>_.
            exit 1))
          else ret ())"

subsection \<open>\<open>getRunnerArgs\<close>\<close>

definition babylonConfig :: "'w sys \<Rightarrow> string" where
  "babylonConfig sys = path_join sys (dirname sys) ''./babylon.config.json''"

definition transformersDir :: "'w sys \<Rightarrow> string" where
  "transformersDir sys = path_join sys (dirname sys) ''../transforms''"

text \<open>\<open>options.cpus || Math.max(2, Math.ceil(os.cpus().length / 3))\<close>: zero is falsy.\<close>

definition runnerCpus :: "'w sys \<Rightarrow> options \<Rightarrow> nat" where
  "runnerCpus sys opts =
     (case cpus opts of
        Some n \<Rightarrow> if n \<noteq> 0 then n else max 2 ((os_cpus sys + 2) div 3)
      | None \<Rightarrow> max 2 ((os_cpus sys + 2) div 3))"

definition getRunnerArgs :: "'w sys \<Rightarrow> string \<Rightarrow> string \<Rightarrow> options \<Rightarrow> arg list" where
  "getRunnerArgs sys transformerPath parser opts =
     [ArgStr ''--verbose=2'', ArgStr ''--ignore-pattern=**/node_modules'', ArgStr ''--quote=single'']
     @ [ArgStr ''--cpus'', ArgNum (runnerCpus sys opts)]
     @ [ArgStr ''--no-babel'']
     @ [ArgStr ''--parser'', ArgStr parser]
     @ [ArgStr ''--parser-config'', ArgStr (babylonConfig sys)]
     @ [ArgStr ''--extensions=tsx,ts,jsx,js'']
     @ [ArgStr ''--transform'', ArgStr transformerPath]
     @ (case gitignore opts of
          Some g \<Rightarrow> if g \<noteq> [] then [ArgStr ''--ignore-config'', ArgStr g] else []
        | None \<Rightarrow> [])
     @ (if style opts then [ArgStr ''--importStyles''] else [])
     @ (case opt_pages opts of
          Some p \<Rightarrow> if p \<noteq> [] then [ArgStr (''--pages='' @ p)] else []
        | None \<Rightarrow> [])"

subsection \<open>\<open>transform\<close> and \<open>run\<close>\<close>

text \<open>
  \<open>transform\<close> prints the pass, calls jscodeshift through \<open>execa\<close> inside \<open>try\<close>, and
  in \<open>catch\<close> prints the error; with \<open>NODE_ENV\<close> set to \<open>local\<close> it also prints the
  command before the call and appends the error and a line break to \<open>error.log\<close> (two
  \<open>fs.appendFileSync\<close> calls, which may throw out of the \<open>catch\<close> block). The constant
  options object of \<open>execa\<close> is left out.
\<close>

definition transformArgs :: "'w sys \<Rightarrow> string \<Rightarrow> string \<Rightarrow> string \<Rightarrow> options \<Rightarrow> arg list" where
  "transformArgs sys transformer parser filePath opts =
     [ArgStr filePath]
     @ getRunnerArgs sys (path_join sys (transformersDir sys) (transformer @ ''.js'')) parser opts"

definition transform :: "'w sys \<Rightarrow> string \<Rightarrow> string \<Rightarrow> string \<Rightarrow> options \<Rightarrow> ('w, unit) io" where
  "transform sys transformer parser filePath opts =
     andThen (emit (LogTransform transformer)) (\<lambda>_.
     let args = transformArgs sys transformer parser filePath opts in
     tryCatch
       (andThen (if node_env sys = Some ''local'' then emit (LogRunning args) else ret ()) (\<lambda>_.
        invoke (Execa (jscodeshiftBin sys) args) (\<lambda>_. RUnit) (execa sys (jscodeshiftBin sys) args)))
       (\<lambda>err.
          andThen (emit (LogError err)) (\<lambda>_.
          if node_env sys = Some ''local'' then
            let errorLogFile = path_join sys (dirname sys) ''./error.log'' in
            andThen (invoke (AppendFileSync errorLogFile (Inl err)) (\<lambda>_. RUnit)
                       (appendFileSync sys errorLogFile (Inl err))) (\<lambda>_.
            invoke (AppendFileSync errorLogFile (Inr nl)) (\<lambda>_. RUnit)
              (appendFileSync sys errorLogFile (Inr nl)))
          else ret ())))"

definition run :: "'w sys \<Rightarrow> string \<Rightarrow> options \<Rightarrow> ('w, unit) io" where
  "run sys filePath opts = forEachM (\<lambda>transformer. transform sys transformer ''babylon'' filePath opts) transformers"

subsection \<open>\<open>renderBabelConfig\<close> and \<open>checkBabelConfig\<close>\<close>

definition renderBabelConfig :: "'w sys \<Rightarrow> markers \<Rightarrow> ('w, string) io" where
  "renderBabelConfig sys dependenciesMarkers =
     (let template = path_join sys (dirname sys) ''templates/babel.config.ejs'';
          templateData = babelTemplateData dependenciesMarkers
      in invoke (RenderFile template templateData) RString (renderFile sys template templateData))"

definition checkBabelConfig :: "'w sys \<Rightarrow> string \<Rightarrow> markers \<Rightarrow> ('w, unit) io" where
  "checkBabelConfig sys projectDir dependenciesMarkers =
     tryCatch
       (let projectBabelConfigPath = path_join sys projectDir ''babel.config.js'' in
        andThen (invoke (ExistsSync projectBabelConfigPath) RBool
                   (\<lambda>w. (Inr (existsSync sys projectBabelConfigPath w), w))) (\<lambda>found.
        if \<not> found then
          andThen (renderBabelConfig sys dependenciesMarkers) (\<lambda>source.
          invoke (WriteFile projectBabelConfigPath source) (\<lambda>_. RUnit)
            (writeFile sys projectBabelConfigPath source))
        else ret ()))
       (\<lambda>error. emit (Log (message error)))"

subsection \<open>\<open>checkDependencies\<close>\<close>

text \<open>
  The lists of the three package-manager commands (lines 239 to 242, 265 and 272 to 275).
\<close>

definition upgradePkgs :: "upgradeDeps \<Rightarrow> string list" where
  "upgradePkgs upgradeDeps = map (\<lambda>(depName, _, expect). depName @ ''@'' @ expect) upgradeDeps"

definition commonInstallDeps :: "taroDeps \<Rightarrow> string list" where
  "commonInstallDeps td = map dep_name (filter (\<lambda>d. \<not> dep_dev d) (install td))"

definition devInstallDeps :: "taroDeps \<Rightarrow> markers \<Rightarrow> string list" where
  "devInstallDeps td dependenciesMarkers =
     map dep_name (filter dep_dev (install td)) @ map fst dependenciesMarkers"

definition registryArgs :: "string list" where
  "registryArgs = [''--registry'', ''https://registry.npmmirror.com/'']"

definition quote :: string where
  "quote = [CHR 0x27]"

text \<open>
  The three tables are printed through \<open>cli-table\<close> and \<open>chalk\<close>; the trace keeps their
  rows and drops the colours. The answer of the prompt is the chosen text.
\<close>

definition checkDependencies :: "'w sys \<Rightarrow> string \<Rightarrow> markers \<Rightarrow> ('w, unit) io" where
  "checkDependencies sys targetDir dependenciesMarkers =
     (let dir = path_join sys (cwd sys) targetDir in
      andThen (invoke (ReadPkgUp dir) (\<lambda>r. RFound (r \<noteq> None)) (readPkgUp sys dir)) (\<lambda>closetPkgJson.
      case closetPkgJson of
        None \<Rightarrow> emit (Log (''We didn'' @ quote @ ''t find your package.json''))
      | Some packageJson \<Rightarrow>
          let td = taroDepsTable sys;
              (upgradeDeps, deprecatedDeps) = scanDependencies (semverRest sys) td packageJson;
              installDeps = install td;
              pkgs = upgradePkgs upgradeDeps
          in
          andThen (emit (Log (''----------- taro dependencies alert -----------'' @ nl))) (\<lambda>_.
          andThen (emit (Log ''Should install/uninstall/upgrade these dependencies to ensure working well with taro3'')) (\<lambda>_.
          andThen (emit (Log (nl @ ''* Install'' @ nl))) (\<lambda>_.
          andThen (emit (LogTable (map (\<lambda>d. [dep_name d, dep_version d]) installDeps))) (\<lambda>_.
          andThen (emit (Log (nl @ ''* Upgrade'' @ nl))) (\<lambda>_.
          andThen (emit (LogTable (map (\<lambda>(depName, from, expect). [depName, from, ''->'', expect]) upgradeDeps))) (\<lambda>_.
          andThen (emit (Log (nl @ ''* Uninstall'' @ nl))) (\<lambda>_.
          andThen (emit (Log (join (os_EOL sys) deprecatedDeps))) (\<lambda>_.
          andThen (emit (Log nl)) (\<lambda>_.
          andThen (invoke Prompt RString (prompt sys)) (\<lambda>theme.
          let bin = (if theme = ''Yes (use npm)'' then Some ''npm''
                     else if theme = ''Yes (use yarn)'' then Some ''yarn''
                     else None)
          in
          case bin of
            None \<Rightarrow> ret ()
          | Some bin \<Rightarrow>
              let installCommand = (if bin = ''npm'' then ''install'' else ''add'');
                  uninstallCommand = (if bin = ''npm'' then ''uninstall'' else ''remove'');
                  common = commonInstallDeps td;
                  installArgs = map ArgStr ([installCommand] @ (pkgs @ common) @ registryArgs);
                  devDeps = devInstallDeps td dependenciesMarkers;
                  devArgs = map ArgStr ([installCommand, ''-D''] @ devDeps @ registryArgs);
                  uninstallArgs = map ArgStr ([uninstallCommand] @ deprecatedDeps)
              in
              andThen (emit (Log (nl @ ''> '' @ bin @ '' '' @ installCommand @ '' '' @ join '' '' (pkgs @ common) @ nl))) (\<lambda>_.
              andThen (invoke (Execa bin installArgs) (\<lambda>_. RUnit) (execa sys bin installArgs)) (\<lambda>_.
              andThen (emit (Log (nl @ ''> '' @ bin @ '' '' @ installCommand @ '' -D '' @ join '' '' devDeps @ nl))) (\<lambda>_.
              andThen (invoke (Execa bin devArgs) (\<lambda>_. RUnit) (execa sys bin devArgs)) (\<lambda>_.
              andThen (emit (Log (nl @ ''> '' @ bin @ '' '' @ uninstallCommand @ '' '' @ join '' '' deprecatedDeps @ nl))) (\<lambda>_.
              invoke (Execa bin uninstallArgs) (\<lambda>_. RUnit) (execa sys bin uninstallArgs))))))))))))))))))"

subsection \<open>\<open>bootstrap\<close>\<close>

definition pagesOption :: "project \<Rightarrow> string" where
  "pagesOption p = join '','' (pages p @ [sourceRoot p @ ''/app''])"

definition gitWarning :: "'w sys \<Rightarrow> string" where
  "gitWarning sys =
     join (os_EOL sys)
       (replicate 3 ''WARNING: You are trying to skip git status checking, please be careful'')"

definition bootstrap :: "'w sys \<Rightarrow> ('w, unit) io" where
  "bootstrap sys =
     (let args = argv sys in
      andThen
        (if node_env sys \<noteq> Some ''local'' then
           (if \<not> force args then ensureGitClean sys else emit (Log (gitWarning sys)))
         else ret ()) (\<lambda>_.
      let projectDir = cwd sys in
      andThen
        (tryCatch (invoke (NewProject projectDir) RProject (newProject sys projectDir))
           (\<lambda>error. andThen (emit (Log (message error))) (\<lambda>_. exit 1))) (\<lambda>p.
      andThen (invoke TransformAndOverwriteConfig RProject (transformAndOverwriteConfig sys p)) (\<lambda>p.
      andThen (invoke TransformEntry RProject (transformEntry sys p)) (\<lambda>p.
      andThen (invoke MarkerStart (\<lambda>_. RUnit) (marker_start sys)) (\<lambda>_.
      let args = args\<lparr>opt_pages := Some (pagesOption p)\<rparr> in
      andThen (run sys (sourceRoot p) args) (\<lambda>_.
      andThen (invoke MarkerOutput RMarkers (marker_output sys)) (\<lambda>dependenciesMarkers.
      andThen (checkBabelConfig sys projectDir dependenciesMarkers) (\<lambda>_.
      andThen (checkDependencies sys (sourceRoot p) dependenciesMarkers) (\<lambda>_.
      emit (Log (nl @ ''----------- Thanks for using taro-2-to-3 -----------''))))))))))))"

definition start :: "'w \<Rightarrow> 'w st" where
  "start w = \<lparr>world = w, trace = []\<rparr>"

section \<open>The three passes, from their specification\<close>

text \<open>
  The passes \<open>router\<close>, \<open>taro-imports\<close> and \<open>page-config\<close> live in \<open>transforms/\<close>, which
  is not among the sources at hand; the driver only names them. This section models
  them from sections 4.3 to 4.5 of the specification, as the pure functions on syntax
  trees it describes. The package and symbol names are those of the README
  (\<open>@tarojs/taro\<close>, \<open>react\<close>, \<open>React\<close>, \<open>getCurrentInstance\<close>); the closed list of
  symbols of the UI layer is a parameter.
\<close>

subsection \<open>Syntax trees\<close>

text \<open>Modelled from the spec: the syntax tree of the Syntax Tree Adapter (4.1), which is
  missing from the sources. Expressions, as far as the passes look into them: \<open>this\<close>,
  identifiers, literals, member access, calls, object literals and functions.\<close>

datatype expr =
    This
  | Ident string
  | Lit string
  | Member expr string
  | CallE expr "expr list"
  | Object "(string \<times> expr) list"
  | Fn "string list" "expr list"

text \<open>Modelled from the spec: a member of a class body (missing from the sources): a
  field, static or not, with its name and initialiser, or a method with its name,
  parameters and body.\<close>

datatype member =
    Field bool string expr
  | Method string "string list" "expr list"

text \<open>Modelled from the spec: a statement of a module (missing from the sources): an
  import with its default binding, its named symbols and its package; a class or a
  function, default-exported or not, with its name; an assignment; a default export of
  an expression; any other statement.\<close>

datatype stmt =
    Import "string option" "string list" string
  | Class bool string "expr option" "member list"
  | Function bool string "string list" "expr list"
  | Assign expr expr
  | ExportDefault expr
  | Stmt expr

type_synonym tree = "stmt list"

text \<open>Modelled from the spec: the expressions of a class member and of a statement, and
  a rewrite applied to each of them (the traversal of the missing adapter).\<close>

fun memberExprs :: "member \<Rightarrow> expr list" where
  "memberExprs (Field _ _ e) = [e]"
| "memberExprs (Method _ _ body) = body"

fun mapMember :: "(expr \<Rightarrow> expr) \<Rightarrow> member \<Rightarrow> member" where
  "mapMember f (Field s n e) = Field s n (f e)"
| "mapMember f (Method n ps body) = Method n ps (map f body)"

fun stmtExprs :: "stmt \<Rightarrow> expr list" where
  "stmtExprs (Import _ _ _) = []"
| "stmtExprs (Class _ _ parent ms) = (case parent of None \<Rightarrow> [] | Some e \<Rightarrow> [e]) @ concat (map memberExprs ms)"
| "stmtExprs (Function _ _ _ body) = body"
| "stmtExprs (Assign l r) = [l, r]"
| "stmtExprs (ExportDefault e) = [e]"
| "stmtExprs (Stmt e) = [e]"

fun mapStmt :: "(expr \<Rightarrow> expr) \<Rightarrow> stmt \<Rightarrow> stmt" where
  "mapStmt f (Import d ns src) = Import d ns src"
| "mapStmt f (Class d n parent ms) = Class d n (map_option f parent) (map (mapMember f) ms)"
| "mapStmt f (Function d n ps body) = Function d n ps (map f body)"
| "mapStmt f (Assign l r) = Assign (f l) (f r)"
| "mapStmt f (ExportDefault e) = ExportDefault (f e)"
| "mapStmt f (Stmt e) = Stmt (f e)"

definition treeExprs :: "tree \<Rightarrow> expr list" where
  "treeExprs t = concat (map stmtExprs t)"

subsection \<open>The pass \<open>router\<close> (4.5)\<close>

text \<open>Modelled from the spec: the detection of the missing \<open>router\<close> pass: the
  member access \<open>this.$router\<close> occurs in the expression.\<close>

fun usesRouter :: "expr \<Rightarrow> bool" where
  "usesRouter This = False"
| "usesRouter (Ident _) = False"
| "usesRouter (Lit _) = False"
| "usesRouter (Member e f) = ((e = This \<and> f = ''$router'') \<or> usesRouter e)"
| "usesRouter (CallE e args) = (usesRouter e \<or> list_ex usesRouter args)"
| "usesRouter (Object ps) = list_ex usesRouter (map snd ps)"
| "usesRouter (Fn _ body) = list_ex usesRouter body"

text \<open>Modelled from the spec: the rewrite of the missing \<open>router\<close> pass: every
  \<open>this.$router\<close> becomes \<open>this.$instance.router\<close>.\<close>

fun rewriteRouter :: "expr \<Rightarrow> expr" where
  "rewriteRouter This = This"
| "rewriteRouter (Ident x) = Ident x"
| "rewriteRouter (Lit x) = Lit x"
| "rewriteRouter (Member e f) =
     (if e = This \<and> f = ''$router'' then Member (Member This ''$instance'') ''router''
      else Member (rewriteRouter e) f)"
| "rewriteRouter (CallE e args) = CallE (rewriteRouter e) (map rewriteRouter args)"
| "rewriteRouter (Object ps) = Object (map (\<lambda>(k, v). (k, rewriteRouter v)) ps)"
| "rewriteRouter (Fn ps body) = Fn ps (map rewriteRouter body)"

text \<open>Modelled from the spec: the class step of the missing \<open>router\<close> pass. A class
  body that uses \<open>this.$router\<close> gets every use rewritten and, unless it declares a
  field \<open>$instance\<close>, exactly one field \<open>$instance = getCurrentInstance()\<close> at its top;
  a class body without a use is left as it is.\<close>

definition classUsesRouter :: "member list \<Rightarrow> bool" where
  "classUsesRouter ms = list_ex (\<lambda>m. list_ex usesRouter (memberExprs m)) ms"

definition declaresField :: "string \<Rightarrow> member list \<Rightarrow> bool" where
  "declaresField n ms = list_ex (\<lambda>m. case m of Field _ f _ \<Rightarrow> f = n | Method _ _ _ \<Rightarrow> False) ms"

definition instanceField :: member where
  "instanceField = Field False ''$instance'' (CallE (Ident ''getCurrentInstance'') [])"

definition routerClass :: "member list \<Rightarrow> member list" where
  "routerClass ms =
     (if classUsesRouter ms
      then (if declaresField ''$instance'' ms then [] else [instanceField])
           @ map (mapMember rewriteRouter) ms
      else ms)"

fun routerStmt :: "stmt \<Rightarrow> stmt" where
  "routerStmt (Class d n parent ms) = Class d n parent (routerClass ms)"
| "routerStmt s = s"

fun stmtUsesRouter :: "stmt \<Rightarrow> bool" where
  "stmtUsesRouter (Class _ _ _ ms) = classUsesRouter ms"
| "stmtUsesRouter _ = False"

definition importsSymbol :: "string \<Rightarrow> string \<Rightarrow> tree \<Rightarrow> bool" where
  "importsSymbol symbol pkg t =
     list_ex (\<lambda>s. case s of Import _ ns src \<Rightarrow> src = pkg \<and> symbol \<in> set ns | _ \<Rightarrow> False) t"

text \<open>Modelled from the spec: the missing \<open>router\<close> pass on a file. No class body uses
  \<open>this.$router\<close>: nothing is rewritten and nothing injected. Otherwise every class is
  rewritten and the factory is imported from the API package unless it already is.\<close>

definition routerPass :: "tree \<Rightarrow> tree" where
  "routerPass t =
     (if \<not> list_ex stmtUsesRouter t then t
      else (if importsSymbol ''getCurrentInstance'' ''@tarojs/taro'' t then []
            else [Import None [''getCurrentInstance''] ''@tarojs/taro''])
           @ map routerStmt t)"

subsection \<open>The pass \<open>taro-imports\<close> (4.3)\<close>

text \<open>Modelled from the spec: the references the missing \<open>taro-imports\<close> pass looks
  for, for the default binding \<open>d\<close> of the legacy package and the list \<open>ui\<close> of the
  symbols of the UI layer: a UI symbol read as a property of \<open>d\<close>; any other use of
  \<open>d\<close>; and the rewrite of the former to the bare symbol.\<close>

fun refsUi :: "string \<Rightarrow> string list \<Rightarrow> expr \<Rightarrow> bool" where
  "refsUi d ui This = False"
| "refsUi d ui (Ident _) = False"
| "refsUi d ui (Lit _) = False"
| "refsUi d ui (Member e f) = ((e = Ident d \<and> f \<in> set ui) \<or> refsUi d ui e)"
| "refsUi d ui (CallE e args) = (refsUi d ui e \<or> list_ex (refsUi d ui) args)"
| "refsUi d ui (Object ps) = list_ex (refsUi d ui) (map snd ps)"
| "refsUi d ui (Fn _ body) = list_ex (refsUi d ui) body"

fun refsOther :: "string \<Rightarrow> string list \<Rightarrow> expr \<Rightarrow> bool" where
  "refsOther d ui This = False"
| "refsOther d ui (Ident x) = (x = d)"
| "refsOther d ui (Lit _) = False"
| "refsOther d ui (Member e f) = (if e = Ident d \<and> f \<in> set ui then False else refsOther d ui e)"
| "refsOther d ui (CallE e args) = (refsOther d ui e \<or> list_ex (refsOther d ui) args)"
| "refsOther d ui (Object ps) = list_ex (refsOther d ui) (map snd ps)"
| "refsOther d ui (Fn _ body) = list_ex (refsOther d ui) body"

fun bareUi :: "string \<Rightarrow> string list \<Rightarrow> expr \<Rightarrow> expr" where
  "bareUi d ui This = This"
| "bareUi d ui (Ident x) = Ident x"
| "bareUi d ui (Lit x) = Lit x"
| "bareUi d ui (Member e f) = (if e = Ident d \<and> f \<in> set ui then Ident f else Member (bareUi d ui e) f)"
| "bareUi d ui (CallE e args) = CallE (bareUi d ui e) (map (bareUi d ui) args)"
| "bareUi d ui (Object ps) = Object (map (\<lambda>(k, v). (k, bareUi d ui v)) ps)"
| "bareUi d ui (Fn ps body) = Fn ps (map (bareUi d ui) body)"

text \<open>Modelled from the spec: the detection of the missing \<open>taro-imports\<close> pass: an
  import with a default binding from the legacy package that also imports a UI symbol,
  by name or as a property of the default binding somewhere in the file.\<close>

definition isLegacyImport :: "string list \<Rightarrow> tree \<Rightarrow> stmt \<Rightarrow> bool" where
  "isLegacyImport ui t s =
     (case s of
        Import (Some d) ns src \<Rightarrow>
          src = ''@tarojs/taro''
          \<and> (list_ex (\<lambda>n. n \<in> set ui) ns \<or> list_ex (refsUi d ui) (treeExprs t))
      | _ \<Rightarrow> False)"

text \<open>Modelled from the spec: the new import shape of the missing \<open>taro-imports\<close>
  pass: an import of the default \<open>React\<close> from \<open>react\<close>.\<close>

definition newShapePresent :: "tree \<Rightarrow> bool" where
  "newShapePresent t =
     list_ex (\<lambda>s. case s of Import (Some r) _ src \<Rightarrow> r = ''React'' \<and> src = ''react'' | _ \<Rightarrow> False) t"

text \<open>Modelled from the spec: the split of the missing \<open>taro-imports\<close> pass: the new
  import with the UI symbols that were named, then the legacy import with the other
  named symbols, kept with its default binding only if the binding is used elsewhere
  (and dropped when nothing is left to import).\<close>

definition splitImport :: "string list \<Rightarrow> tree \<Rightarrow> string \<Rightarrow> string list \<Rightarrow> string \<Rightarrow> stmt list" where
  "splitImport ui t d ns src =
     (let uiNamed = filter (\<lambda>n. n \<in> set ui) ns;
          apiNamed = filter (\<lambda>n. n \<notin> set ui) ns
      in Import (Some ''React'') uiNamed ''react''
         # (if list_ex (refsOther d ui) (treeExprs t) then [Import (Some d) apiNamed src]
            else if apiNamed \<noteq> [] then [Import None apiNamed src]
            else []))"

text \<open>Modelled from the spec: the missing \<open>taro-imports\<close> pass on a file. It is a
  no-op when the new import shape is already present or no legacy import is detected;
  otherwise the first detected import is split and, in every other statement, the UI
  symbols read from its default binding become bare symbols.\<close>

definition taroImportsPass :: "string list \<Rightarrow> tree \<Rightarrow> tree" where
  "taroImportsPass ui t =
     (if newShapePresent t then t
      else case find (isLegacyImport ui t) t of
             None \<Rightarrow> t
           | Some s \<Rightarrow>
               (case s of
                  Import (Some d) ns src \<Rightarrow>
                    concat (map (\<lambda>x. if x = s then splitImport ui t d ns src
                                       else [mapStmt (bareUi d ui) x]) t)
                | _ \<Rightarrow> t))"

subsection \<open>The pass \<open>page-config\<close> (4.4)\<close>

text \<open>Modelled from the spec: the default export of a file, for the missing
  \<open>page-config\<close> pass: the classes and functions exported by default, and the declared
  names exported by a separate \<open>export default\<close>.\<close>

definition declared :: "string \<Rightarrow> tree \<Rightarrow> bool" where
  "declared n t =
     list_ex (\<lambda>s. case s of Class _ m _ _ \<Rightarrow> m = n | Function _ m _ _ \<Rightarrow> m = n | _ \<Rightarrow> False) t"

definition isFunction :: "string \<Rightarrow> tree \<Rightarrow> bool" where
  "isFunction n t = list_ex (\<lambda>s. case s of Function _ m _ _ \<Rightarrow> m = n | _ \<Rightarrow> False) t"

fun defaultExportOf :: "tree \<Rightarrow> stmt \<Rightarrow> string list" where
  "defaultExportOf t (Class d n _ _) = (if d then [n] else [])"
| "defaultExportOf t (Function d n _ _) = (if d then [n] else [])"
| "defaultExportOf t (ExportDefault (Ident n)) = (if declared n t then [n] else [])"
| "defaultExportOf t _ = []"

definition defaultExports :: "tree \<Rightarrow> string list" where
  "defaultExports t = concat (map (defaultExportOf t) t)"

text \<open>Modelled from the spec: the configurations the missing \<open>page-config\<close> pass
  detects for the component \<open>n\<close>: a field named \<open>config\<close> that holds an object literal,
  in a class named \<open>n\<close>; an assignment \<open>n.config = {...}\<close>, when \<open>n\<close> is a function.\<close>

fun isObject :: "expr \<Rightarrow> bool" where
  "isObject (Object _) = True"
| "isObject _ = False"

fun isConfigField :: "member \<Rightarrow> bool" where
  "isConfigField (Field _ f e) = (f = ''config'' \<and> isObject e)"
| "isConfigField (Method _ _ _) = False"

fun isConfigAssign :: "string \<Rightarrow> stmt \<Rightarrow> bool" where
  "isConfigAssign n (Assign (Member (Ident m) f) e) = (m = n \<and> f = ''config'' \<and> isObject e)"
| "isConfigAssign n _ = False"

fun configsOf :: "string \<Rightarrow> bool \<Rightarrow> stmt \<Rightarrow> expr list" where
  "configsOf n fn (Class d m parent ms) =
     (if m = n then concat (map memberExprs (filter isConfigField ms)) else [])"
| "configsOf n fn (Assign l r) = (if fn \<and> isConfigAssign n (Assign l r) then [r] else [])"
| "configsOf n fn _ = []"

definition pageConfigs :: "string \<Rightarrow> tree \<Rightarrow> expr list" where
  "pageConfigs n t = concat (map (configsOf n (isFunction n t)) t)"

text \<open>Modelled from the spec: the removal of the missing \<open>page-config\<close> pass: the file
  without the configurations of the component \<open>n\<close>.\<close>

fun dropConfigs :: "string \<Rightarrow> bool \<Rightarrow> stmt \<Rightarrow> stmt list" where
  "dropConfigs n fn (Class d m parent ms) =
     [Class d m parent (if m = n then filter (\<lambda>x. \<not> isConfigField x) ms else ms)]"
| "dropConfigs n fn (Assign l r) = (if fn \<and> isConfigAssign n (Assign l r) then [] else [Assign l r])"
| "dropConfigs n fn s = [s]"

definition removeConfigs :: "string \<Rightarrow> tree \<Rightarrow> tree" where
  "removeConfigs n t = concat (map (dropConfigs n (isFunction n t)) t)"

text \<open>Modelled from the spec: the missing \<open>page-config\<close> pass on a file: the rewritten
  file and the sibling file it emits, if any. The entry file is excluded; the pass skips
  the file unless it has exactly one default export with exactly one configuration;
  otherwise the configuration is removed and the sibling file is the default export of
  that object literal.\<close>

definition pageConfigPass :: "bool \<Rightarrow> tree \<Rightarrow> tree \<times> tree option" where
  "pageConfigPass isEntry t =
     (if isEntry then (t, None)
      else case defaultExports t of
             [n] \<Rightarrow>
               (case pageConfigs n t of
                  [cfg] \<Rightarrow> (removeConfigs n t, Some [ExportDefault cfg])
                | _ \<Rightarrow> (t, None))
           | _ \<Rightarrow> (t, None))"

text \<open>Modelled from the spec: the file step of the Transform Orchestrator (4.7), missing
  from the sources: parse, apply the pass, and write the printed tree only if the pass
  changed it; a file that does not parse is left as it is. \<open>parse\<close> and \<open>print\<close> are
  those of the adapter.\<close>

definition applyPass :: "(string \<Rightarrow> tree option) \<Rightarrow> (tree \<Rightarrow> string) \<Rightarrow> (tree \<Rightarrow> tree) \<Rightarrow> string \<Rightarrow> string" where
  "applyPass parse print P txt =
     (case parse txt of
        None \<Rightarrow> txt
      | Some t \<Rightarrow> if P t = t then txt else print (P t))"

subsection \<open>Three files for the passes\<close>

text \<open>The inputs of the testable properties of the specification (section 8): a class
  with three uses of \<open>this.$router\<close>; a file that imports \<open>Taro\<close> and \<open>Component\<close> from
  the legacy package and calls \<open>Taro.request\<close>; a page whose class holds a \<open>config\<close>
  field.\<close>

definition routerFile :: tree where
  "routerFile =
     [Class True ''Foo'' (Some (Ident ''Component''))
        [Method ''componentWillMount'' []
           [CallE (Member (Ident ''console'') ''log'') [Member This ''$router''],
            CallE (Ident ''f'') [Member (Member This ''$router'') ''params''],
            Member (Member This ''$router'') ''path'']]]"

definition importsFile :: tree where
  "importsFile =
     [Import (Some ''Taro'') [''Component''] ''@tarojs/taro'',
      Class True ''Wallace'' (Some (Ident ''Component''))
        [Method ''componentDidMount'' [] [CallE (Member (Ident ''Taro'') ''request'') []]]]"

definition pageFile :: tree where
  "pageFile =
     [Class True ''Index'' (Some (Ident ''Component''))
        [Field False ''config'' (Object [(''navigationBarTitleText'', Lit ''home'')]),
         Method ''render'' [] [Lit ''null'']]]"

section \<open>Reading a run\<close>

text \<open>The events a computation adds to the trace when it is started in the state \<open>s\<close>.\<close>

definition events :: "('w, 'a) io \<Rightarrow> 'w st \<Rightarrow> event list" where
  "events m s = drop (length (trace s)) (trace (snd (m s)))"

text \<open>The child processes started, in order.\<close>

fun execCalls :: "event list \<Rightarrow> call list" where
  "execCalls [] = []"
| "execCalls (Call (Execa b a) # evs) = Execa b a # execCalls evs"
| "execCalls (_ # evs) = execCalls evs"

text \<open>Every call is awaited: the event right after a call is the return of that same
  call, so nothing else happens while it runs.\<close>

fun awaited :: "event list \<Rightarrow> bool" where
  "awaited [] = True"
| "awaited (Call c # Return c' r # evs) = (c = c' \<and> awaited evs)"
| "awaited (Call c # _) = False"
| "awaited (Return _ _ # _) = False"
| "awaited (_ # evs) = awaited evs"

text \<open>The jscodeshift process of one pass, as \<open>transform\<close> starts it from \<open>run\<close>.\<close>

definition passCall :: "'w sys \<Rightarrow> string \<Rightarrow> options \<Rightarrow> string \<Rightarrow> call" where
  "passCall sys filePath opts transformer =
     Execa (jscodeshiftBin sys) (transformArgs sys transformer ''babylon'' filePath opts)"

text \<open>The events of the babel configuration step.\<close>

fun babelEvent :: "event \<Rightarrow> bool" where
  "babelEvent (Call (ExistsSync _)) = True"
| "babelEvent (Return (ExistsSync _) _) = True"
| "babelEvent (Call (RenderFile _ _)) = True"
| "babelEvent (Return (RenderFile _ _) _) = True"
| "babelEvent (Call (WriteFile _ _)) = True"
| "babelEvent (Return (WriteFile _ _) _) = True"
| "babelEvent _ = False"




section \<open>A small concrete system\<close>

text \<open>
  A world is the list of the files that exist. The project lives in \<open>/proj\<close>; the
  \<open>Project\<close> constructor fails when \<open>/proj/config/index.js\<close> is missing. The parameters
  choose \<open>NODE_ENV\<close>, the programs whose child process fails, whether \<open>error.log\<close> can
  be written, and the answer to the prompt.
\<close>

definition demoErr :: err where
  "demoErr = \<lparr>message = ''command failed'', stderr = None\<rparr>"

definition demoDeps :: taroDeps where
  "demoDeps = \<lparr>install = [\<lparr>dep_name = ''react'', dep_version = ''^16.10.0'', dep_dev = False\<rparr>,
                         \<lparr>dep_name = ''babel-preset-taro'', dep_version = ''^3.1.1'', dep_dev = True\<rparr>],
               upgrade = [''@tarojs/taro''],
               deprecated = [''nervjs'']\<rparr>"

definition demoManifest :: manifest where
  "demoManifest = [''dependencies'' \<mapsto> [''@tarojs/taro'' \<mapsto> ''2.2.0'', ''nervjs'' \<mapsto> ''1.5.0'']]"

definition demoSys :: "string option \<Rightarrow> string list \<Rightarrow> bool \<Rightarrow> string \<Rightarrow> (string list) sys" where
  "demoSys env failing appendOk answer =
     \<lparr>node_env = env,
      argv = \<lparr>force = False, cpus = None, gitignore = None, style = False, opt_pages = None\<rparr>,
      cwd = ''/proj'',
      dirname = ''/tool/bin'',
      jscodeshiftBin = ''/tool/node_modules/.bin/jscodeshift'',
      os_cpus = 8,
      os_EOL = nl,
      path_join = (\<lambda>a b. a @ ''/'' @ b),
      taroDepsTable = demoDeps,
      semverRest = (\<lambda>_ _. True),
      isGitClean = (\<lambda>w. (Inr True, w)),
      newProject = (\<lambda>d w. if d @ ''/config/index.js'' \<in> set w
                           then (Inr \<lparr>sourceRoot = ''src'', pages = [''pages/index/index'']\<rparr>, w)
                           else (Inl \<lparr>message = ''config not found'', stderr = None\<rparr>, w)),
      transformAndOverwriteConfig = (\<lambda>p w. (Inr p, w)),
      transformEntry = (\<lambda>p w. (Inr p, w)),
      marker_start = (\<lambda>w. (Inr (), w)),
      marker_output = (\<lambda>w. (Inr [(''babel-plugin-const-enum'', 1)], w)),
      execa = (\<lambda>b a w. if b \<in> set failing then (Inl demoErr, w) else (Inr (), w)),
      appendFileSync = (\<lambda>p d w. if appendOk then (Inr (), p # w) else (Inl demoErr, w)),
      existsSync = (\<lambda>p w. p \<in> set w),
      renderFile = (\<lambda>t d w. (Inr ''module.exports = {}'', w)),
      writeFile = (\<lambda>p c w. (Inr (), p # w)),
      readPkgUp = (\<lambda>d w. (Inr (Some demoManifest), w)),
      prompt = (\<lambda>w. (Inr answer, w))\<rparr>"

definition demoOpts :: options where
  "demoOpts = \<lparr>force = False, cpus = None, gitignore = None, style = False,
               opt_pages = Some ''pages/index/index,src/app''\<rparr>"

section \<open>Reasoning about runs\<close>

text \<open>
  \<open>emits m Q\<close>: started in any state, \<open>m\<close> only appends to the trace, and its result
  together with the events it appended satisfies \<open>Q\<close>. A predicate on event lists is
  \<open>closed\<close> when it holds of the empty list and of every concatenation of lists it
  holds of.
\<close>

definition emits :: "('w, 'a) io \<Rightarrow> ('a res \<Rightarrow> event list \<Rightarrow> bool) \<Rightarrow> bool" where
  "emits m Q = (\<forall>s. trace (snd (m s)) = trace s @ events m s \<and> Q (fst (m s)) (events m s))"

definition closed :: "(event list \<Rightarrow> bool) \<Rightarrow> bool" where
  "closed I = (I [] \<and> (\<forall>a b. I a \<longrightarrow> I b \<longrightarrow> I (a @ b)))"


subsection \<open>The properties of a run that the proofs carry along\<close>

text \<open>Each is the statement of one of the theorems below, as a predicate on the events
  of a run (and on its result), so that it can be proved step by step.\<close>

text \<open>A dependency is listed by the manifest when one of the given dependency properties
  holds a non-empty version range for it.\<close>

definition listed :: "manifest \<Rightarrow> string list \<Rightarrow> string \<Rightarrow> bool" where
  "listed packageJson props n =
     (\<exists>property \<in> set props. \<exists>deps. packageJson property = Some deps \<and> truthy (deps n))"

definition babelRule :: "string \<Rightarrow> event list \<Rightarrow> bool" where
  "babelRule bp evs =
     ((\<forall>f c. Call (WriteFile f c) \<in> set evs \<longrightarrow>
          f = bp \<and> Return (ExistsSync bp) (RBool False) \<in> set evs)
      \<and> (Return (ExistsSync bp) (RBool True) \<in> set evs \<longrightarrow>
          (\<forall>f c. Call (WriteFile f c) \<notin> set evs) \<and> (\<forall>t d. Call (RenderFile t d) \<notin> set evs)))"



definition fatalRule :: "string \<Rightarrow> unit res \<Rightarrow> event list \<Rightarrow> bool" where
  "fatalRule d r evs =
     (\<forall>e. Return (NewProject d) (Failed e) \<in> set evs \<longrightarrow>
        r = Exit 1
        \<and> suffix [Call (NewProject d), Return (NewProject d) (Failed e), Log (message e), ProcExit 1] evs
        \<and> (\<forall>c. Call c \<in> set evs \<longrightarrow> c = IsGitClean \<or> c = NewProject d))"




text \<open>The events in which the package manager and the prompt take no part.\<close>

definition packageManagerQuiet :: "event \<Rightarrow> bool" where
  "packageManagerQuiet ev =
     ((\<forall>x. ev \<noteq> Return Prompt x) \<and> (\<forall>b a. ev \<noteq> Call (Execa b a)) \<and> (\<forall>b a x. ev \<noteq> Return (Execa b a) x))"


definition blame :: "'w sys \<Rightarrow> 'a res \<Rightarrow> event list \<Rightarrow> bool" where
  "blame sys r evs =
     (case r of
        Ok _ \<Rightarrow> True
      | Throw e \<Rightarrow> (\<exists>c. Return c (Failed e) \<in> set evs \<and> (\<forall>a. c \<noteq> Execa (jscodeshiftBin sys) a))
      | Exit n \<Rightarrow> ProcExit n \<in> set evs)"





section \<open>Lemmas\<close>

subsection \<open>Rules for \<open>emits\<close>\<close>

lemma emitsI:
  assumes "\<And>s. \<exists>evs. trace (snd (m s)) = trace s @ evs \<and> Q (fst (m s)) evs"
  shows "emits m Q"
  unfolding emits_def events_def
proof (intro allI)
  fix s
  from assms[of s] obtain evs where "trace (snd (m s)) = trace s @ evs" "Q (fst (m s)) evs" by blast
  then show "trace (snd (m s)) = trace s @ drop (length (trace s)) (trace (snd (m s))) \<and>
         Q (fst (m s)) (drop (length (trace s)) (trace (snd (m s))))" by simp
qed

lemma emitsD:
  assumes "emits m Q" and "m s = (r, s')"
  shows "\<exists>evs. trace s' = trace s @ evs \<and> Q r evs"
  using assms unfolding emits_def by (metis fst_conv snd_conv)

lemma emits_ret: "Q (Ok a) [] \<Longrightarrow> emits (ret a) Q"
  by (rule emitsI) (simp add: ret_def)

lemma emits_emit: "Q (Ok ()) [e] \<Longrightarrow> emits (emit e) Q"
  by (rule emitsI) (simp add: emit_def)

lemma emits_exit: "Q (Exit n) [ProcExit n] \<Longrightarrow> emits (exit n) Q"
  by (rule emitsI) (simp add: exit_def)

lemma emits_invoke:
  assumes "\<And>e. Q (Throw e) [Call c, Return c (Failed e)]"
    and "\<And>a. Q (Ok a) [Call c, Return c (rv a)]"
  shows "emits (invoke c rv f) Q"
  by (rule emitsI) (auto simp: invoke_def assms split: prod.split sum.split)

lemma emits_andThen:
  assumes m: "emits m Q1"
    and f: "\<And>a. emits (f a) (Q2 a)"
    and ok: "\<And>a e1 r e2. Q1 (Ok a) e1 \<Longrightarrow> Q2 a r e2 \<Longrightarrow> Q r (e1 @ e2)"
    and th: "\<And>e ev. Q1 (Throw e) ev \<Longrightarrow> Q (Throw e) ev"
    and ex: "\<And>n ev. Q1 (Exit n) ev \<Longrightarrow> Q (Exit n) ev"
  shows "emits (andThen m f) Q"
proof (rule emitsI)
  fix s
  obtain r s' where ms: "m s = (r, s')" by (cases "m s")
  from emitsD[OF m ms] obtain e1 where e1: "trace s' = trace s @ e1" "Q1 r e1" by blast
  show "\<exists>evs. trace (snd (andThen m f s)) = trace s @ evs \<and> Q (fst (andThen m f s)) evs"
  proof (cases r)
    case (Ok a)
    obtain r2 s2 where fs: "f a s' = (r2, s2)" by (cases "f a s'")
    from emitsD[OF f fs] obtain e2 where e2: "trace s2 = trace s' @ e2" "Q2 a r2 e2" by blast
    have "andThen m f s = (r2, s2)" by (simp add: andThen_def ms Ok fs)
    moreover have "trace s2 = trace s @ (e1 @ e2)" using e1 e2 by simp
    moreover have "Q r2 (e1 @ e2)" using ok e1 e2 Ok by blast
    ultimately show ?thesis by (metis fst_conv snd_conv)
  next
    case (Throw e)
    then show ?thesis using e1 th by (auto simp: andThen_def ms)
  next
    case (Exit n)
    then show ?thesis using e1 ex by (auto simp: andThen_def ms)
  qed
qed

lemma emits_tryCatch:
  assumes m: "emits m Q1"
    and h: "\<And>e. emits (h e) (Q2 e)"
    and th: "\<And>e e1 r e2. Q1 (Throw e) e1 \<Longrightarrow> Q2 e r e2 \<Longrightarrow> Q r (e1 @ e2)"
    and ok: "\<And>a ev. Q1 (Ok a) ev \<Longrightarrow> Q (Ok a) ev"
    and ex: "\<And>n ev. Q1 (Exit n) ev \<Longrightarrow> Q (Exit n) ev"
  shows "emits (tryCatch m h) Q"
proof (rule emitsI)
  fix s
  obtain r s' where ms: "m s = (r, s')" by (cases "m s")
  from emitsD[OF m ms] obtain e1 where e1: "trace s' = trace s @ e1" "Q1 r e1" by blast
  show "\<exists>evs. trace (snd (tryCatch m h s)) = trace s @ evs \<and> Q (fst (tryCatch m h s)) evs"
  proof (cases r)
    case (Throw e)
    obtain r2 s2 where fs: "h e s' = (r2, s2)" by (cases "h e s'")
    from emitsD[OF h fs] obtain e2 where e2: "trace s2 = trace s' @ e2" "Q2 e r2 e2" by blast
    have "tryCatch m h s = (r2, s2)" by (simp add: tryCatch_def ms Throw fs)
    moreover have "trace s2 = trace s @ (e1 @ e2)" using e1 e2 by simp
    moreover have "Q r2 (e1 @ e2)" using th e1 e2 Throw by blast
    ultimately show ?thesis by (metis fst_conv snd_conv)
  next
    case (Ok a)
    then show ?thesis using e1 ok by (auto simp: tryCatch_def ms)
  next
    case (Exit n)
    then show ?thesis using e1 ex by (auto simp: tryCatch_def ms)
  qed
qed


lemma emits_conj: "emits m Q \<Longrightarrow> emits m Q' \<Longrightarrow> emits m (\<lambda>r ev. Q r ev \<and> Q' r ev)"
  unfolding emits_def by blast


lemma closed_list_all: "closed (list_all C)"
  by (simp add: closed_def)

lemma inv_ret: "closed I \<Longrightarrow> emits (ret a) (\<lambda>_. I)"
  by (rule emits_ret) (simp add: closed_def)

lemma inv_andThen:
  "closed I \<Longrightarrow> emits m (\<lambda>_. I) \<Longrightarrow> (\<And>a. emits (f a) (\<lambda>_. I)) \<Longrightarrow> emits (andThen m f) (\<lambda>_. I)"
  by (rule emits_andThen[where ?Q1.0 = "\<lambda>_. I" and ?Q2.0 = "\<lambda>_ _. I"]) (auto simp: closed_def)

lemma inv_tryCatch:
  "closed I \<Longrightarrow> emits m (\<lambda>_. I) \<Longrightarrow> (\<And>e. emits (h e) (\<lambda>_. I)) \<Longrightarrow> emits (tryCatch m h) (\<lambda>_. I)"
  by (rule emits_tryCatch[where ?Q1.0 = "\<lambda>_. I" and ?Q2.0 = "\<lambda>_ _. I"]) (auto simp: closed_def)

lemma inv_forEachM:
  assumes "closed I" and "\<And>x. x \<in> set xs \<Longrightarrow> emits (f x) (\<lambda>_. I)"
  shows "emits (forEachM f xs) (\<lambda>_. I)"
  using assms(2)
proof (induction xs)
  case Nil
  have "forEachM f [] = ret ()" by (rule ext) (simp add: ret_def)
  then show ?case using inv_ret[OF assms(1)] by simp
next
  case (Cons x xs)
  have eq: "forEachM f (x # xs) = andThen (f x) (\<lambda>_. forEachM f xs)"
    by (rule ext) (simp add: andThen_def split: prod.split res.split)
  show ?case unfolding eq
    by (rule inv_andThen[OF assms(1)]) (use Cons in auto)
qed

lemma cls_emit: "C e \<Longrightarrow> emits (emit e) (\<lambda>_. list_all C)"
  by (rule emits_emit) simp

lemma cls_exit: "C (ProcExit n) \<Longrightarrow> emits (exit n) (\<lambda>_. list_all C)"
  by (rule emits_exit) simp

lemma cls_invoke: "C (Call c) \<Longrightarrow> (\<And>r. C (Return c r)) \<Longrightarrow> emits (invoke c rv f) (\<lambda>_. list_all C)"
  by (rule emits_invoke) simp_all

lemmas cls_intros =
  inv_ret[OF closed_list_all] inv_andThen[OF closed_list_all] inv_tryCatch[OF closed_list_all]
  inv_forEachM[OF closed_list_all] cls_emit cls_exit cls_invoke


lemma forEachM_Nil: "forEachM f [] = ret ()"
  by (rule ext) (simp add: ret_def)

lemma forEachM_Cons: "forEachM f (x # xs) = andThen (f x) (\<lambda>_. forEachM f xs)"
  by (rule ext) (simp add: andThen_def split: prod.split res.split)

lemma emits_result: "emits m Q \<Longrightarrow> Q (fst (m s)) (events m s)"
  by (simp add: emits_def)

lemma emits_prefix_cls:
  assumes "emits m (\<lambda>_. list_all C)"
    and "\<And>a. emits (f a) Q"
    and "\<And>e1 r e2. list_all C e1 \<Longrightarrow> Q r e2 \<Longrightarrow> Q r (e1 @ e2)"
    and "\<And>r e1. list_all C e1 \<Longrightarrow> Q r e1"
  shows "emits (andThen m f) Q"
  by (rule emits_andThen[OF assms(1) assms(2)]) (use assms(3,4) in blast)+

lemma emits_suffix_cls:
  assumes "emits m Q"
    and "\<And>a. emits (f a) (\<lambda>_. list_all C)"
    and "\<And>a e1 r e2. Q (Ok a) e1 \<Longrightarrow> list_all C e2 \<Longrightarrow> Q' r (e1 @ e2)"
    and "\<And>e e1. Q (Throw e) e1 \<Longrightarrow> Q' (Throw e) e1"
    and "\<And>n e1. Q (Exit n) e1 \<Longrightarrow> Q' (Exit n) e1"
  shows "emits (andThen m f) Q'"
  by (rule emits_andThen[OF assms(1) assms(2)]) (use assms(3,4,5) in blast)+

lemmas io_defs = andThen_def tryCatch_def invoke_def emit_def ret_def exit_def Let_def events_def start_def

lemmas proc_defs = ensureGitClean_def run_def transform_def
  checkBabelConfig_def renderBabelConfig_def checkDependencies_def

subsection \<open>The example system\<close>

lemma demoSys_sel:
  "node_env (demoSys env failing appendOk answer) = env"
  "argv (demoSys env failing appendOk answer) =
     \<lparr>force = False, cpus = None, gitignore = None, style = False, opt_pages = None\<rparr>"
  "cwd (demoSys env failing appendOk answer) = ''/proj''"
  "dirname (demoSys env failing appendOk answer) = ''/tool/bin''"
  "jscodeshiftBin (demoSys env failing appendOk answer) = ''/tool/node_modules/.bin/jscodeshift''"
  "os_cpus (demoSys env failing appendOk answer) = 8"
  "os_EOL (demoSys env failing appendOk answer) = nl"
  "path_join (demoSys env failing appendOk answer) a b = a @ ''/'' @ b"
  "taroDepsTable (demoSys env failing appendOk answer) = demoDeps"
  "semverRest (demoSys env failing appendOk answer) v r = True"
  "isGitClean (demoSys env failing appendOk answer) w = (Inr True, w)"
  "newProject (demoSys env failing appendOk answer) d w =
     (if d @ ''/config/index.js'' \<in> set w
      then (Inr \<lparr>sourceRoot = ''src'', pages = [''pages/index/index'']\<rparr>, w)
      else (Inl \<lparr>message = ''config not found'', stderr = None\<rparr>, w))"
  "transformAndOverwriteConfig (demoSys env failing appendOk answer) p w = (Inr p, w)"
  "transformEntry (demoSys env failing appendOk answer) p w = (Inr p, w)"
  "marker_start (demoSys env failing appendOk answer) w = (Inr (), w)"
  "marker_output (demoSys env failing appendOk answer) w = (Inr [(''babel-plugin-const-enum'', 1)], w)"
  "execa (demoSys env failing appendOk answer) b args w =
     (if b \<in> set failing then (Inl demoErr, w) else (Inr (), w))"
  "appendFileSync (demoSys env failing appendOk answer) f dat w =
     (if appendOk then (Inr (), f # w) else (Inl demoErr, w))"
  "existsSync (demoSys env failing appendOk answer) f w = (f \<in> set w)"
  "renderFile (demoSys env failing appendOk answer) t tdata w = (Inr ''module.exports = {}'', w)"
  "writeFile (demoSys env failing appendOk answer) f c w = (Inr (), f # w)"
  "readPkgUp (demoSys env failing appendOk answer) d w = (Inr (Some demoManifest), w)"
  "prompt (demoSys env failing appendOk answer) w = (Inr answer, w)"
  by (simp_all add: demoSys_def)


lemma demo_scan:
  "scanDependencies rest demoDeps demoManifest
     = ([(''@tarojs/taro'', ''2.2.0'', ''^3.1.1'')], [''nervjs''])"
  by (simp add: scanDependencies_def scanUpgrade_def scanDeprecated_def dependencyProperties_def
      demoManifest_def demoDeps_def truthy_def semverSatisfies_def versionHead_def isSpace_def isDigit_def
      expectVersion_def)

subsection \<open>The dependency scan\<close>

lemma expectVersion_no_version: "\<not> versionHead expectVersion"
  by (simp add: versionHead_def expectVersion_def isSpace_def isDigit_def)

lemma semverSatisfies_expectVersion: "semverSatisfies rest expectVersion r = False"
  by (simp add: semverSatisfies_def expectVersion_no_version)

lemma scanUpgrade_step_keys:
  "fst ` set (foldl (\<lambda>acc depName.
         case deps depName of
           None \<Rightarrow> acc
         | Some versionRange \<Rightarrow>
             if versionRange \<noteq> [] \<and> \<not> semverSatisfies rest expectVersion versionRange
             then AList.update depName (versionRange, expectVersion) acc
             else acc) u ns)
   = fst ` set u \<union> {n \<in> set ns. truthy (deps n)}"
proof (induction ns arbitrary: u)
  case Nil
  show ?case by simp
next
  case (Cons n ns)
  let ?f = "\<lambda>acc depName.
         case deps depName of
           None \<Rightarrow> acc
         | Some versionRange \<Rightarrow>
             if versionRange \<noteq> [] \<and> \<not> semverSatisfies rest expectVersion versionRange
             then AList.update depName (versionRange, expectVersion) acc
             else acc"
  have step: "fst ` set (?f u n) = fst ` set u \<union> (if truthy (deps n) then {n} else {})"
    by (cases "deps n")
      (auto simp: semverSatisfies_expectVersion truthy_def update_keys image_iff
        simp flip: set_map split: if_splits)
  have "fst ` set (foldl ?f u (n # ns)) = fst ` set (?f u n) \<union> {n \<in> set ns. truthy (deps n)}"
    using Cons.IH[of "?f u n"] by simp
  also have "\<dots> = fst ` set u \<union> {m \<in> set (n # ns). truthy (deps m)}"
    unfolding step by auto
  finally show ?case .
qed

lemma scanUpgrade_keys:
  "fst ` set (scanUpgrade rest td deps u) = fst ` set u \<union> {n \<in> set (upgrade td). truthy (deps n)}"
  unfolding scanUpgrade_def by (rule scanUpgrade_step_keys)

lemma scanDeprecated_step:
  "set (foldl (\<lambda>acc depName. if truthy (deps depName) then acc @ [depName] else acc) d ns)
   = set d \<union> {n \<in> set ns. truthy (deps n)}"
  by (induction ns arbitrary: d) auto

lemma scanDeprecated_set:
  "set (scanDeprecated td deps d) = set d \<union> {n \<in> set (deprecated td). truthy (deps n)}"
  unfolding scanDeprecated_def by (rule scanDeprecated_step)

lemma scan_fold:
  "foldl (\<lambda>(upgradeDeps, deprecatedDeps) property.
         case packageJson property of
           None \<Rightarrow> (upgradeDeps, deprecatedDeps)
         | Some deps \<Rightarrow>
             (scanUpgrade rest td deps upgradeDeps, scanDeprecated td deps deprecatedDeps))
       (u, d) props = (u', d') \<Longrightarrow>
   fst ` set u' = fst ` set u \<union> {n \<in> set (upgrade td). listed packageJson props n}
   \<and> set d' = set d \<union> {n \<in> set (deprecated td). listed packageJson props n}"
proof (induction props arbitrary: u d)
  case Nil
  then show ?case by (auto simp: listed_def)
next
  case (Cons p props)
  show ?case
  proof (cases "packageJson p")
    case None
    with Cons.prems have "foldl (\<lambda>(upgradeDeps, deprecatedDeps) property.
         case packageJson property of
           None \<Rightarrow> (upgradeDeps, deprecatedDeps)
         | Some deps \<Rightarrow>
             (scanUpgrade rest td deps upgradeDeps, scanDeprecated td deps deprecatedDeps))
       (u, d) props = (u', d')" by simp
    from Cons.IH[OF this] None show ?thesis by (auto simp: listed_def)
  next
    case (Some deps)
    with Cons.prems have "foldl (\<lambda>(upgradeDeps, deprecatedDeps) property.
         case packageJson property of
           None \<Rightarrow> (upgradeDeps, deprecatedDeps)
         | Some deps \<Rightarrow>
             (scanUpgrade rest td deps upgradeDeps, scanDeprecated td deps deprecatedDeps))
       (scanUpgrade rest td deps u, scanDeprecated td deps d) props = (u', d')" by simp
    from Cons.IH[OF this] Some show ?thesis
      by (auto simp: listed_def scanUpgrade_keys scanDeprecated_set)
  qed
qed

lemma scanDependencies_sets:
  "fst ` set (fst (scanDependencies rest td packageJson))
     = {n \<in> set (upgrade td). listed packageJson dependencyProperties n}
   \<and> set (snd (scanDependencies rest td packageJson))
     = {n \<in> set (deprecated td). listed packageJson dependencyProperties n}"
proof -
  obtain u' d' where r: "scanDependencies rest td packageJson = (u', d')"
    by (cases "scanDependencies rest td packageJson")
  from scan_fold[OF r[unfolded scanDependencies_def]] r show ?thesis by simp
qed

subsection \<open>The passes\<close>

lemma execCalls_append: "execCalls (a @ b) = execCalls a @ execCalls b"
  by (induction a rule: execCalls.induct) auto

lemma awaited_append: "awaited a \<Longrightarrow> awaited b \<Longrightarrow> awaited (a @ b)"
  by (induction a rule: awaited.induct) auto

lemma transform_emits:
  "emits (transform sys t ''babylon'' fp opts)
     (\<lambda>r evs. execCalls evs = [passCall sys fp opts t] \<and> awaited evs
        \<and> (\<forall>c e. Return c (Failed e) \<in> set evs \<longrightarrow> LogError e \<in> set evs \<or> (\<exists>p d. c = AppendFileSync p d)))"
  apply (rule emitsI)
  apply (auto simp: transform_def andThen_def tryCatch_def invoke_def emit_def ret_def Let_def passCall_def
      split: prod.splits sum.splits res.splits if_splits)
  done

lemma transform_returns:
  assumes "node_env sys \<noteq> Some ''local'' \<or> (\<forall>p d w. fst (appendFileSync sys p d w) = Inr ())"
  shows "emits (transform sys t ''babylon'' fp opts)
     (\<lambda>r evs. r = Ok () \<and> (\<forall>c e. Return c (Failed e) \<in> set evs \<longrightarrow> LogError e \<in> set evs))"
proof (cases "node_env sys = Some ''local''")
  case False
  then show ?thesis
    apply -
    apply (rule emitsI)
    apply (auto simp: transform_def andThen_def tryCatch_def invoke_def emit_def ret_def Let_def
      split: prod.splits sum.splits res.splits if_splits)
    done
next
  case True
  with assms have ok: "\<And>p d w. fst (appendFileSync sys p d w) = Inr ()" by simp
  have no: "\<And>p d w e w'. appendFileSync sys p d w \<noteq> (Inl e, w')"
    using ok by (metis fst_conv sum.distinct(1))
  show ?thesis
    apply (rule emitsI)
    apply (auto simp: no transform_def andThen_def tryCatch_def invoke_def emit_def ret_def Let_def
      split: prod.splits sum.splits res.splits if_splits)
    done
qed


lemma passes_emits:
  "emits (forEachM (\<lambda>t. transform sys t ''babylon'' fp opts) ts)
     (\<lambda>r evs. prefix (execCalls evs) (map (passCall sys fp opts) ts) \<and> awaited evs
        \<and> (r = Ok () \<longrightarrow> execCalls evs = map (passCall sys fp opts) ts))"
proof (induction ts)
  case Nil
  show ?case unfolding forEachM_Nil by (rule emits_ret) simp
next
  case (Cons t ts)
  show ?case unfolding forEachM_Cons
    by (rule emits_andThen[OF transform_emits Cons.IH])
      (auto simp: execCalls_append awaited_append)
qed

lemma passes_return:
  assumes "node_env sys \<noteq> Some ''local'' \<or> (\<forall>p d w. fst (appendFileSync sys p d w) = Inr ())"
  shows "emits (forEachM (\<lambda>t. transform sys t ''babylon'' fp opts) ts)
     (\<lambda>r evs. r = Ok () \<and> (\<forall>c e. Return c (Failed e) \<in> set evs \<longrightarrow> LogError e \<in> set evs))"
proof (induction ts)
  case Nil
  show ?case unfolding forEachM_Nil by (rule emits_ret) simp
next
  case (Cons t ts)
  show ?case unfolding forEachM_Cons
    by (rule emits_andThen[OF transform_returns[OF assms] Cons.IH]) auto
qed

subsection \<open>The babel configuration\<close>

lemma babelRule_quiet: "list_all (\<lambda>ev. \<not> babelEvent ev) evs \<Longrightarrow> babelRule bp evs"
  unfolding babelRule_def list_all_iff by (metis babelEvent.simps(1-6))

lemma babelRule_prefix:
  "list_all (\<lambda>ev. \<not> babelEvent ev) e1 \<Longrightarrow> babelRule bp e2 \<Longrightarrow> babelRule bp (e1 @ e2)"
  unfolding babelRule_def list_all_iff
  by (metis Un_iff babelEvent.simps(1-6) set_append)

lemma babelRule_suffix:
  "babelRule bp e1 \<Longrightarrow> list_all (\<lambda>ev. \<not> babelEvent ev) e2 \<Longrightarrow> babelRule bp (e1 @ e2)"
  unfolding babelRule_def list_all_iff
  by (metis Un_iff babelEvent.simps(1-6) set_append)

lemma checkBabelConfig_rule:
  "emits (checkBabelConfig sys projectDir m) (\<lambda>_. babelRule (path_join sys projectDir ''babel.config.js''))"
  apply (rule emitsI)
  apply (auto simp: checkBabelConfig_def renderBabelConfig_def io_defs babelRule_def
      split: prod.splits sum.splits res.splits if_splits)
  done

lemma bootstrap_babelRule:
  "emits (bootstrap sys) (\<lambda>_. babelRule (path_join sys (cwd sys) ''babel.config.js''))"
  unfolding bootstrap_def Let_def
  apply (rule emits_prefix_cls[where C = "\<lambda>ev. \<not> babelEvent ev"])
     apply (auto intro!: cls_intros simp: proc_defs Let_def)[1]
    prefer 2 apply (erule (1) babelRule_prefix)
   prefer 2 apply (erule babelRule_quiet)
  apply (rule emits_prefix_cls[where C = "\<lambda>ev. \<not> babelEvent ev"])
     apply (auto intro!: cls_intros simp: proc_defs Let_def)[1]
    prefer 2 apply (erule (1) babelRule_prefix)
   prefer 2 apply (erule babelRule_quiet)
  apply (rule emits_prefix_cls[where C = "\<lambda>ev. \<not> babelEvent ev"])
     apply (auto intro!: cls_intros simp: proc_defs Let_def)[1]
    prefer 2 apply (erule (1) babelRule_prefix)
   prefer 2 apply (erule babelRule_quiet)
  apply (rule emits_prefix_cls[where C = "\<lambda>ev. \<not> babelEvent ev"])
     apply (auto intro!: cls_intros simp: proc_defs Let_def)[1]
    prefer 2 apply (erule (1) babelRule_prefix)
   prefer 2 apply (erule babelRule_quiet)
  apply (rule emits_prefix_cls[where C = "\<lambda>ev. \<not> babelEvent ev"])
     apply (auto intro!: cls_intros simp: proc_defs Let_def)[1]
    prefer 2 apply (erule (1) babelRule_prefix)
   prefer 2 apply (erule babelRule_quiet)
  apply (rule emits_prefix_cls[where C = "\<lambda>ev. \<not> babelEvent ev"])
     apply (auto intro!: cls_intros simp: proc_defs Let_def)[1]
    prefer 2 apply (erule (1) babelRule_prefix)
   prefer 2 apply (erule babelRule_quiet)
  apply (rule emits_prefix_cls[where C = "\<lambda>ev. \<not> babelEvent ev"])
     apply (auto intro!: cls_intros simp: proc_defs Let_def)[1]
    prefer 2 apply (erule (1) babelRule_prefix)
   prefer 2 apply (erule babelRule_quiet)
  apply (rule emits_suffix_cls[where C = "\<lambda>ev. \<not> babelEvent ev", OF checkBabelConfig_rule])
     apply (auto intro!: cls_intros simp: proc_defs Let_def split: option.split prod.split)[1]
    apply (erule (1) babelRule_suffix)
   apply assumption+
  done

subsection \<open>A failing \<open>Project\<close> constructor\<close>

lemma newProject_step:
  "emits (tryCatch (invoke (NewProject d) RProject (newProject sys d))
            (\<lambda>error. andThen (emit (Log (message error))) (\<lambda>_. exit 1)))
     (\<lambda>r evs. (\<exists>p. r = Ok p \<and> evs = [Call (NewProject d), Return (NewProject d) (RProject p)])
         \<or> (\<exists>e. r = Exit 1 \<and> evs = [Call (NewProject d), Return (NewProject d) (Failed e),
                                       Log (message e), ProcExit 1]))"
  apply (rule emitsI)
  apply (auto simp: io_defs split: prod.splits sum.splits res.splits)
  done

lemma bootstrap_fatalRule: "emits (bootstrap sys) (fatalRule (cwd sys))"
  unfolding bootstrap_def Let_def
  apply (rule emits_prefix_cls[where C = "\<lambda>ev. (\<forall>x y. ev \<noteq> Return (NewProject x) y) \<and> (\<forall>c. ev = Call c \<longrightarrow> c = IsGitClean)"])
     apply (auto intro!: cls_intros simp: proc_defs Let_def)[1]
    apply (rule emits_andThen[OF newProject_step, where ?Q2.0 = "\<lambda>_ _. list_all (\<lambda>ev. \<forall>x y. ev \<noteq> Return (NewProject x) y)"])
       apply (auto intro!: cls_intros simp: proc_defs Let_def split: option.split prod.split)[1]
      apply (auto simp: fatalRule_def list_all_iff suffix_def)
  done

subsection \<open>The page scope of the passes\<close>











subsection \<open>The dev-dependency install\<close>




lemma execCalls_quiet:
  "list_all (\<lambda>ev. \<forall>b a. ev \<noteq> Call (Execa b a)) e1 \<Longrightarrow> execCalls (e1 @ e2) = execCalls e2"
  by (induction e1 rule: execCalls.induct) auto

lemma packageManagerQuiet_execCalls:
  "list_all packageManagerQuiet e1 \<Longrightarrow> execCalls (e1 @ e2) = execCalls e2"
  by (rule execCalls_quiet) (auto simp: list_all_iff packageManagerQuiet_def)

lemma packageManagerQuiet_Nil:
  "list_all packageManagerQuiet e1 \<Longrightarrow> execCalls e1 = []"
  using packageManagerQuiet_execCalls[of e1 "[]"] by simp




subsection \<open>Who is to blame when a run does not complete\<close>

lemma blame_ret: "emits (ret a) (blame sys)"
  by (rule emits_ret) (simp add: blame_def)

lemma blame_emit: "emits (emit e) (blame sys)"
  by (rule emits_emit) (simp add: blame_def)

lemma blame_exit: "emits (exit n) (blame sys)"
  by (rule emits_exit) (simp add: blame_def)

lemma blame_invoke: "(\<And>a. c \<noteq> Execa (jscodeshiftBin sys) a) \<Longrightarrow> emits (invoke c rv f) (blame sys)"
  by (rule emits_invoke) (auto simp: blame_def)

lemma blame_andThen:
  "emits m (blame sys) \<Longrightarrow> (\<And>a. emits (f a) (blame sys)) \<Longrightarrow> emits (andThen m f) (blame sys)"
  by (erule emits_andThen[where ?Q2.0 = "\<lambda>_. blame sys"]) (auto simp: blame_def split: res.splits)

lemma blame_tryCatch:
  "emits m (\<lambda>r _. \<forall>n. r \<noteq> Exit n) \<Longrightarrow> (\<And>e. emits (h e) (blame sys)) \<Longrightarrow> emits (tryCatch m h) (blame sys)"
  by (erule emits_tryCatch[where ?Q2.0 = "\<lambda>_. blame sys"]) (auto simp: blame_def split: res.splits)

lemma blame_forEachM:
  assumes "\<And>x. emits (f x) (blame sys)"
  shows "emits (forEachM f xs) (blame sys)"
proof (induction xs)
  case Nil
  show ?case unfolding forEachM_Nil by (rule blame_ret)
next
  case (Cons x xs)
  show ?case unfolding forEachM_Cons by (rule blame_andThen[OF assms Cons])
qed

lemma nx_ret: "emits (ret a) (\<lambda>r _. \<forall>n. r \<noteq> Exit n)"
  by (rule emits_ret) simp

lemma nx_emit: "emits (emit e) (\<lambda>r _. \<forall>n. r \<noteq> Exit n)"
  by (rule emits_emit) simp

lemma nx_invoke: "emits (invoke c rv f) (\<lambda>r _. \<forall>n. r \<noteq> Exit n)"
  by (rule emits_invoke) simp_all

lemma nx_andThen:
  "emits m (\<lambda>r _. \<forall>n. r \<noteq> Exit n) \<Longrightarrow> (\<And>a. emits (f a) (\<lambda>r _. \<forall>n. r \<noteq> Exit n))
   \<Longrightarrow> emits (andThen m f) (\<lambda>r _. \<forall>n. r \<noteq> Exit n)"
  by (erule emits_andThen[where ?Q2.0 = "\<lambda>_ r _. \<forall>n. r \<noteq> Exit n"]) auto

lemmas blame_intros = blame_ret blame_emit blame_exit blame_invoke blame_andThen blame_tryCatch
  blame_forEachM nx_ret nx_emit nx_invoke nx_andThen

lemma bootstrap_blame:
  assumes js: "jscodeshiftBin sys \<noteq> ''npm''" "jscodeshiftBin sys \<noteq> ''yarn''"
  shows "emits (bootstrap sys) (blame sys)"
  unfolding bootstrap_def proc_defs Let_def
  by (auto intro!: blame_intros simp: js js[symmetric] split: option.split prod.split)

subsection \<open>The order of the steps\<close>


















subsection \<open>The data of the babel template\<close>




lemmas demo_eval = bootstrap_def proc_defs io_defs transformers_def demoSys_sel demo_scan

subsection \<open>The passes of the specification\<close>

lemma rewriteRouter_This: "rewriteRouter e = This \<longleftrightarrow> e = This"
  by (cases e) auto

lemma rewriteRouter_clean: "\<not> usesRouter (rewriteRouter e)"
  by (induction e) (auto simp: rewriteRouter_This list_ex_iff)

lemma mapMember_clean: "\<not> list_ex usesRouter (memberExprs (mapMember rewriteRouter m))"
  by (cases m) (auto simp: list_ex_iff rewriteRouter_clean)

lemma mapMember_clean_set: "x \<in> set (memberExprs (mapMember rewriteRouter m)) \<Longrightarrow> \<not> usesRouter x"
  using mapMember_clean[of m] by (auto simp: list_ex_iff)

lemma routerClass_clean: "\<not> classUsesRouter (routerClass ms)"
  unfolding routerClass_def
  by (auto simp: classUsesRouter_def list_ex_iff instanceField_def dest: mapMember_clean_set)

lemma routerStmt_clean: "\<not> stmtUsesRouter (routerStmt s)"
  by (cases s) (simp_all add: routerClass_clean)

lemma routerPass_clean: "\<not> list_ex stmtUsesRouter (routerPass t)"
  unfolding routerPass_def
  by (auto simp: list_ex_iff routerStmt_clean)

lemma routerPass_idem: "routerPass (routerPass t) = routerPass t"
  using routerPass_clean[of t] by (subst routerPass_def) simp

lemma taroImportsPass_shape:
  "taroImportsPass ui t = t \<or> newShapePresent (taroImportsPass ui t)"
proof (cases "newShapePresent t")
  case True
  then show ?thesis by (simp add: taroImportsPass_def)
next
  case False
  show ?thesis
  proof (cases "find (isLegacyImport ui t) t")
    case None
    with False show ?thesis by (simp add: taroImportsPass_def)
  next
    case (Some s)
    then have mem: "s \<in> set t" by (auto simp: find_Some_iff)
    show ?thesis
    proof (cases s)
      case (Import d ns src)
      show ?thesis
      proof (cases d)
        case None
        with False Some Import show ?thesis by (simp add: taroImportsPass_def)
      next
        case (Some b)
        have "Import (Some ''React'') (filter (\<lambda>n. n \<in> set ui) ns) ''react''
                \<in> set (splitImport ui t b ns src)"
          by (simp add: splitImport_def Let_def)
        with mem have "Import (Some ''React'') (filter (\<lambda>n. n \<in> set ui) ns) ''react''
                \<in> set (concat (map (\<lambda>x. if x = s then splitImport ui t b ns src
                                       else [mapStmt (bareUi b ui) x]) t))"
          by auto
        then have "newShapePresent (concat (map (\<lambda>x. if x = s then splitImport ui t b ns src
                                       else [mapStmt (bareUi b ui) x]) t))"
          unfolding newShapePresent_def list_ex_iff by (rule bexI[rotated]) simp
        with False \<open>find (isLegacyImport ui t) t = Some s\<close> Import Some show ?thesis
          by (simp add: taroImportsPass_def)
      qed
    qed (use False Some in \<open>simp_all add: taroImportsPass_def\<close>)
  qed
qed

lemma taroImportsPass_idem: "taroImportsPass ui (taroImportsPass ui t) = taroImportsPass ui t"
proof -
  consider "taroImportsPass ui t = t" | "newShapePresent (taroImportsPass ui t)"
    using taroImportsPass_shape[of ui t] by blast
  then show ?thesis
  proof cases
    case 1
    then show ?thesis by simp
  next
    case 2
    then show ?thesis by (subst taroImportsPass_def) simp
  qed
qed

lemma bareUi_Ident: "d \<notin> set ui \<Longrightarrow> bareUi d ui e = Ident d \<longleftrightarrow> e = Ident d"
  by (cases e) auto

lemma bareUi_clean: "d \<notin> set ui \<Longrightarrow> \<not> refsUi d ui (bareUi d ui e)"
  by (induction e) (auto simp: bareUi_Ident list_ex_iff)

lemma dropConfigs_isFunction:
  "list_ex (\<lambda>s. case s of Function _ m _ _ \<Rightarrow> m = k | _ \<Rightarrow> False) (concat (map (dropConfigs n fn) t))
   = list_ex (\<lambda>s. case s of Function _ m _ _ \<Rightarrow> m = k | _ \<Rightarrow> False) t"
proof (induction t)
  case Nil
  show ?case by simp
next
  case (Cons s t)
  then show ?case by (cases s) auto
qed

lemma dropConfigs_declared:
  "list_ex (\<lambda>s. case s of Class _ m _ _ \<Rightarrow> m = k | Function _ m _ _ \<Rightarrow> m = k | _ \<Rightarrow> False)
      (concat (map (dropConfigs n fn) t))
   = list_ex (\<lambda>s. case s of Class _ m _ _ \<Rightarrow> m = k | Function _ m _ _ \<Rightarrow> m = k | _ \<Rightarrow> False) t"
proof (induction t)
  case Nil
  show ?case by simp
next
  case (Cons s t)
  then show ?case by (cases s) auto
qed

lemma removeConfigs_isFunction: "isFunction k (removeConfigs n t) = isFunction k t"
  unfolding isFunction_def removeConfigs_def by (rule dropConfigs_isFunction)

lemma removeConfigs_declared: "declared k (removeConfigs n t) = declared k t"
  unfolding declared_def removeConfigs_def by (rule dropConfigs_declared)

lemma defaultExportOf_cong:
  "(\<And>k. declared k t' = declared k t) \<Longrightarrow> defaultExportOf t' s = defaultExportOf t s"
  by (induction t s rule: defaultExportOf.induct) auto

lemma dropConfigs_defaultExports:
  "concat (map (defaultExportOf u) (concat (map (dropConfigs n fn) t))) = concat (map (defaultExportOf u) t)"
proof (induction t)
  case Nil
  show ?case by simp
next
  case (Cons s t)
  then show ?case by (cases s) auto
qed

lemma removeConfigs_defaultExports: "defaultExports (removeConfigs n t) = defaultExports t"
proof -
  have "defaultExportOf (removeConfigs n t) = defaultExportOf t"
    by (rule ext) (rule defaultExportOf_cong, rule removeConfigs_declared)
  then show ?thesis
    unfolding defaultExports_def
    by (simp add: removeConfigs_def dropConfigs_defaultExports)
qed

lemma dropConfigs_none:
  "concat (map (configsOf n fn) (concat (map (dropConfigs n fn) t))) = []"
proof (induction t)
  case Nil
  show ?case by simp
next
  case (Cons s t)
  then show ?case by (cases s) auto
qed

lemma removeConfigs_none: "pageConfigs n (removeConfigs n t) = []"
  unfolding pageConfigs_def removeConfigs_isFunction
  unfolding removeConfigs_def by (rule dropConfigs_none)

lemma pageConfigPass_idem:
  "fst (pageConfigPass isEntry (fst (pageConfigPass isEntry t))) = fst (pageConfigPass isEntry t)"
proof (cases "\<not> isEntry \<and> (\<exists>n cfg. defaultExports t = [n] \<and> pageConfigs n t = [cfg])")
  case True
  then obtain n cfg where n: "defaultExports t = [n]" "pageConfigs n t = [cfg]" and e: "\<not> isEntry" by blast
  then have 1: "fst (pageConfigPass isEntry t) = removeConfigs n t"
    by (simp add: pageConfigPass_def)
  have "pageConfigPass isEntry (removeConfigs n t) = (removeConfigs n t, None)"
    using e n(1) by (simp add: pageConfigPass_def removeConfigs_defaultExports removeConfigs_none)
  with 1 show ?thesis by simp
next
  case False
  then have "pageConfigPass isEntry t = (t, None)"
    by (auto simp: pageConfigPass_def split: list.splits)
  then show ?thesis by simp
qed

lemma applyPass_idem:
  assumes idem: "\<And>t. P (P t) = P t"
    and roundtrip: "\<And>t. parse txt = Some t \<Longrightarrow> parse (print (P t)) = Some (P t)"
  shows "applyPass parse print P (applyPass parse print P txt) = applyPass parse print P txt"
proof (cases "parse txt")
  case None
  then show ?thesis by (simp add: applyPass_def)
next
  case (Some t)
  show ?thesis
  proof (cases "P t = t")
    case True
    with Some show ?thesis by (simp add: applyPass_def)
  next
    case False
    with Some have 1: "applyPass parse print P txt = print (P t)" by (simp add: applyPass_def)
    have "applyPass parse print P (print (P t)) = print (P t)"
      using roundtrip[OF Some] idem[of t] by (simp add: applyPass_def)
    with 1 show ?thesis by simp
  qed
qed

section \<open>Properties\<close>

subsection \<open>The parameter of the babel template\<close>




subsection \<open>The order of the passes\<close>



subsection \<open>Which dependencies are marked for upgrade\<close>

text \<open>
  C3 says that a dependency of the upgrade registry is marked exactly when its declared
  range does not satisfy the expected version. The driver asks
  \<open>semverSatisfies(expectVersion, versionRange)\<close> with \<open>expectVersion = '^3.1.1'\<close>, which
  is a range and not a version, so the answer is false for every range and every listed
  dependency of the registry is marked. At the manifest whose only dependency is
  \<open>@tarojs/taro\<close> with the range \<open>^3.1.1\<close>, the expected one, the scan marks it for an
  upgrade from \<open>^3.1.1\<close> to \<open>^3.1.1\<close>, whatever the library would decide about ranges.
\<close>

theorem upgrade_marks_expected_range:
  "scanDependencies rest \<lparr>install = [], upgrade = [''@tarojs/taro''], deprecated = []\<rparr>
     [''dependencies'' \<mapsto> [''@tarojs/taro'' \<mapsto> ''^3.1.1'']]
   = ([(''@tarojs/taro'', ''^3.1.1'', ''^3.1.1'')], [])"
  by (simp add: scanDependencies_def scanUpgrade_def scanDeprecated_def dependencyProperties_def
      semverSatisfies_expectVersion[unfolded expectVersion_def] truthy_def expectVersion_def)

text \<open>In general: a name of the upgrade registry with a non-empty range under one of the
  five dependency properties is marked, whatever the range.\<close>

lemma upgrade_marks_whatever_the_range:
  assumes "n \<in> set (upgrade td)" and "property \<in> set dependencyProperties"
    and "packageJson property = Some deps" and "deps n = Some versionRange" and "versionRange \<noteq> []"
  shows "n \<in> fst ` set (fst (scanDependencies rest td packageJson))"
proof -
  have "listed packageJson dependencyProperties n"
    unfolding listed_def using assms by (auto simp: truthy_def intro!: bexI[of _ property])
  then show ?thesis
    using assms(1) scanDependencies_sets[of rest td packageJson] by simp
qed

subsection \<open>An existing babel configuration\<close>

text \<open>
  C9. In every run of \<open>bootstrap\<close>: the only file ever written through \<open>fs.writeFile\<close> is
  \<open>babel.config.js\<close> in the project directory, and only after \<open>fs.existsSync\<close> answered
  that it does not exist; when \<open>fs.existsSync\<close> answered that it exists, the run neither
  renders the template nor writes a file.
\<close>

theorem existing_babel_config_is_kept:
  "(\<forall>f c. Call (WriteFile f c) \<in> set (events (bootstrap sys) s) \<longrightarrow>
       f = path_join sys (cwd sys) ''babel.config.js''
       \<and> Return (ExistsSync (path_join sys (cwd sys) ''babel.config.js'')) (RBool False)
           \<in> set (events (bootstrap sys) s))
   \<and> (Return (ExistsSync (path_join sys (cwd sys) ''babel.config.js'')) (RBool True)
         \<in> set (events (bootstrap sys) s) \<longrightarrow>
       (\<forall>f c. Call (WriteFile f c) \<notin> set (events (bootstrap sys) s))
       \<and> (\<forall>t d. Call (RenderFile t d) \<notin> set (events (bootstrap sys) s)))"
  using emits_result[OF bootstrap_babelRule, of sys s]
  unfolding babelRule_def by blast

text \<open>The example system with and without \<open>/proj/babel.config.js\<close>: with the file, the
  check answers true and nothing is written; without it, the rendered text is written.\<close>

theorem existing_babel_config_is_kept_witness:
  "Return (ExistsSync ''/proj/babel.config.js'') (RBool True)
     \<in> set (events (bootstrap (demoSys None [] True ''No''))
               (start [''/proj/config/index.js'', ''/proj/babel.config.js'']))
   \<and> (\<forall>f c. Call (WriteFile f c)
         \<notin> set (events (bootstrap (demoSys None [] True ''No''))
                   (start [''/proj/config/index.js'', ''/proj/babel.config.js''])))
   \<and> Call (WriteFile ''/proj/babel.config.js'' ''module.exports = {}'')
       \<in> set (events (bootstrap (demoSys None [] True ''No'')) (start [''/proj/config/index.js'']))
   \<and> Return (ExistsSync ''/proj/babel.config.js'') (RBool False)
       \<in> set (events (bootstrap (demoSys None [] True ''No'')) (start [''/proj/config/index.js'']))"
  using existing_babel_config_is_kept[of "demoSys None [] True ''No''"
      "start [''/proj/config/index.js'', ''/proj/babel.config.js'']"]
    existing_babel_config_is_kept[of "demoSys None [] True ''No''" "start [''/proj/config/index.js'']"]
  by (simp add: bootstrap_def proc_defs io_defs transformers_def demoSys_sel demo_scan)

subsection \<open>A failure inside a pass\<close>

text \<open>
  C4 says that a failure inside a pass invocation is caught and logged, never aborts the
  remaining passes, and leaves the run successful. The \<open>catch\<close> block of \<open>transform\<close>
  does more than log: with \<open>NODE_ENV\<close> set to \<open>local\<close> it appends the error to
  \<open>error.log\<close> with \<open>fs.appendFileSync\<close>, outside any handler, so that an exception of
  that call leaves \<open>transform\<close>. In the example system with \<open>local\<close>, a failing
  jscodeshift and an \<open>fs.appendFileSync\<close> that throws: \<open>run\<close> throws after the first
  pass, the other two passes are never started, and \<open>bootstrap\<close> ends with that throw.
\<close>

theorem run_aborts_when_error_log_fails:
  "fst (run (demoSys (Some ''local'') [''/tool/node_modules/.bin/jscodeshift''] False ''No'') ''src'' demoOpts (start []))
     = Throw demoErr
   \<and> execCalls (events (run (demoSys (Some ''local'') [''/tool/node_modules/.bin/jscodeshift''] False ''No'') ''src'' demoOpts) (start []))
     = [passCall (demoSys (Some ''local'') [''/tool/node_modules/.bin/jscodeshift''] False ''No'') ''src'' demoOpts ''router'']
   \<and> fst (bootstrap (demoSys (Some ''local'') [''/tool/node_modules/.bin/jscodeshift''] False ''No'')
          (start [''/proj/config/index.js''])) = Throw demoErr"
  by (simp add: demo_eval passCall_def)

text \<open>
  What the \<open>catch\<close> block does achieve. When \<open>NODE_ENV\<close> is not \<open>local\<close>, or
  \<open>fs.appendFileSync\<close> never throws, \<open>run\<close> starts the three passes and returns
  normally, and every failure it met was printed with \<open>console.error\<close>. And a run of
  \<open>bootstrap\<close> in which nothing but pass invocations failed and \<open>process.exit\<close> was not
  called completes normally (here \<open>jscodeshiftBin\<close> is not the package manager, so that
  a pass invocation can be told from an install).
\<close>

lemma pass_failure_is_contained:
  "(node_env sys \<noteq> Some ''local'' \<or> (\<forall>p d w. fst (appendFileSync sys p d w) = Inr ()) \<longrightarrow>
      fst (run sys filePath opts s) = Ok ()
      \<and> execCalls (events (run sys filePath opts) s) =
          [passCall sys filePath opts ''router'', passCall sys filePath opts ''taro-imports'',
           passCall sys filePath opts ''page-config'']
      \<and> (\<forall>c e. Return c (Failed e) \<in> set (events (run sys filePath opts) s) \<longrightarrow>
            LogError e \<in> set (events (run sys filePath opts) s)))
   \<and> (jscodeshiftBin sys \<noteq> ''npm'' \<and> jscodeshiftBin sys \<noteq> ''yarn''
      \<and> (\<forall>c e. Return c (Failed e) \<in> set (events (bootstrap sys) s') \<longrightarrow>
            (\<exists>a. c = Execa (jscodeshiftBin sys) a))
      \<and> (\<forall>n. ProcExit n \<notin> set (events (bootstrap sys) s')) \<longrightarrow>
      fst (bootstrap sys s') = Ok ())"
proof (intro conjI impI)
  assume h: "node_env sys \<noteq> Some ''local'' \<or> (\<forall>p d w. fst (appendFileSync sys p d w) = Inr ())"
  from emits_result[OF passes_return[OF h], of filePath opts transformers s]
  show "fst (run sys filePath opts s) = Ok ()" by (simp add: run_def)
  from emits_result[OF passes_emits, of sys filePath opts transformers s] this
  show "execCalls (events (run sys filePath opts) s) =
          [passCall sys filePath opts ''router'', passCall sys filePath opts ''taro-imports'',
           passCall sys filePath opts ''page-config'']"
    by (simp add: run_def transformers_def)
  from emits_result[OF passes_return[OF h], of filePath opts transformers s]
  show "\<forall>c e. Return c (Failed e) \<in> set (events (run sys filePath opts) s) \<longrightarrow>
            LogError e \<in> set (events (run sys filePath opts) s)"
    by (simp add: run_def)
next
  assume h: "jscodeshiftBin sys \<noteq> ''npm'' \<and> jscodeshiftBin sys \<noteq> ''yarn''
      \<and> (\<forall>c e. Return c (Failed e) \<in> set (events (bootstrap sys) s') \<longrightarrow>
            (\<exists>a. c = Execa (jscodeshiftBin sys) a))
      \<and> (\<forall>n. ProcExit n \<notin> set (events (bootstrap sys) s'))"
  then have js: "jscodeshiftBin sys \<noteq> ''npm''" "jscodeshiftBin sys \<noteq> ''yarn''" by simp_all
  from emits_result[OF bootstrap_blame[OF js], of s'] h
  show "fst (bootstrap sys s') = Ok ()"
    unfolding blame_def by (cases "fst (bootstrap sys s')") auto
qed

text \<open>The example system where every jscodeshift process fails, \<open>NODE_ENV\<close> unset: the
  three failures are printed, all three passes are started, and \<open>bootstrap\<close> completes.\<close>

lemma pass_failure_is_contained_example:
  "fst (run (demoSys None [''/tool/node_modules/.bin/jscodeshift''] True ''No'') ''src'' demoOpts (start [])) = Ok ()
   \<and> Return (passCall (demoSys None [''/tool/node_modules/.bin/jscodeshift''] True ''No'') ''src'' demoOpts ''router'')
        (Failed demoErr)
       \<in> set (events (run (demoSys None [''/tool/node_modules/.bin/jscodeshift''] True ''No'') ''src'' demoOpts) (start []))
   \<and> LogError demoErr
       \<in> set (events (run (demoSys None [''/tool/node_modules/.bin/jscodeshift''] True ''No'') ''src'' demoOpts) (start []))
   \<and> length (execCalls (events (run (demoSys None [''/tool/node_modules/.bin/jscodeshift''] True ''No'') ''src'' demoOpts) (start []))) = 3
   \<and> length (filter (\<lambda>ev. \<exists>c. ev = Return c (Failed demoErr))
        (events (bootstrap (demoSys None [''/tool/node_modules/.bin/jscodeshift''] True ''No''))
           (start [''/proj/config/index.js'']))) = 3
   \<and> fst (bootstrap (demoSys None [''/tool/node_modules/.bin/jscodeshift''] True ''No'')
          (start [''/proj/config/index.js''])) = Ok ()"
  using pass_failure_is_contained[of "demoSys None [''/tool/node_modules/.bin/jscodeshift''] True ''No''"
      "''src''" demoOpts "start []" "start [''/proj/config/index.js'']"]
  by (simp add: demo_eval passCall_def)

subsection \<open>A project model that cannot be built\<close>

text \<open>
  C5. If in a run of \<open>bootstrap\<close> the \<open>Project\<close> constructor throws, the run ends with
  \<open>process.exit(1)\<close>; its last actions are the constructor call, the print of the error
  message and the exit; and the only calls the run ever makes are the git check and the
  constructor: no rewrite of the build configuration or the entry file, no pass, no file
  written.
\<close>

theorem fatal_project_error_stops_run:
  assumes "Return (NewProject (cwd sys)) (Failed e) \<in> set (events (bootstrap sys) s)"
  shows "fst (bootstrap sys s) = Exit 1
    \<and> suffix [Call (NewProject (cwd sys)), Return (NewProject (cwd sys)) (Failed e),
               Log (message e), ProcExit 1] (events (bootstrap sys) s)
    \<and> (\<forall>c. Call c \<in> set (events (bootstrap sys) s) \<longrightarrow> c = IsGitClean \<or> c = NewProject (cwd sys))"
  using emits_result[OF bootstrap_fatalRule, of sys s] assms
  unfolding fatalRule_def by blast

text \<open>The example system started without \<open>/proj/config/index.js\<close>.\<close>

theorem fatal_project_error_stops_run_witness:
  "Return (NewProject ''/proj'') (Failed \<lparr>message = ''config not found'', stderr = None\<rparr>)
     \<in> set (events (bootstrap (demoSys None [] True ''No'')) (start []))
   \<and> fst (bootstrap (demoSys None [] True ''No'') (start [])) = Exit 1
   \<and> events (bootstrap (demoSys None [] True ''No'')) (start []) =
       [Call IsGitClean, Return IsGitClean (RBool True),
        Call (NewProject ''/proj''),
        Return (NewProject ''/proj'') (Failed \<lparr>message = ''config not found'', stderr = None\<rparr>),
        Log ''config not found'', ProcExit 1]"
  using fatal_project_error_stops_run[of "demoSys None [] True ''No''"
      "\<lparr>message = ''config not found'', stderr = None\<rparr>" "start []"]
  by (simp add: demo_eval)

subsection \<open>The order of the steps of a run\<close>



subsection \<open>The page scope of the passes\<close>



subsection \<open>The dev-dependency install\<close>




subsection \<open>Applying a pass twice\<close>

text \<open>
  C8. For each of the three passes, as modelled from sections 4.3 to 4.5 of the
  specification, and for every file: the pass applied to its own output gives that
  output again (for \<open>page-config\<close>, the rewritten file; the second application emits no
  sibling file). \<open>router\<close> leaves no \<open>this.$router\<close> behind, \<open>taro-imports\<close> leaves the
  new import shape behind, \<open>page-config\<close> leaves no configuration behind, and each is a
  no-op on such a file. The text the file step writes is then the same the second time,
  as long as the adapter parses the text it printed back to the tree it printed (lemma
  \<open>applyPass_idem\<close>).
\<close>

theorem passes_are_idempotent:
  "routerPass (routerPass t) = routerPass t
   \<and> taroImportsPass ui (taroImportsPass ui t) = taroImportsPass ui t
   \<and> fst (pageConfigPass isEntry (fst (pageConfigPass isEntry t))) = fst (pageConfigPass isEntry t)"
  by (simp add: routerPass_idem taroImportsPass_idem pageConfigPass_idem)

text \<open>The three files of the testable properties: what each pass makes of its file, and
  that a second application changes nothing.\<close>

theorem passes_are_idempotent_witness:
  "routerPass routerFile =
     [Import None [''getCurrentInstance''] ''@tarojs/taro'',
      Class True ''Foo'' (Some (Ident ''Component''))
        [Field False ''$instance'' (CallE (Ident ''getCurrentInstance'') []),
         Method ''componentWillMount'' []
           [CallE (Member (Ident ''console'') ''log'') [Member (Member This ''$instance'') ''router''],
            CallE (Ident ''f'') [Member (Member (Member This ''$instance'') ''router'') ''params''],
            Member (Member (Member This ''$instance'') ''router'') ''path'']]]
   \<and> routerPass (routerPass routerFile) = routerPass routerFile
   \<and> taroImportsPass [''Component''] importsFile =
     [Import (Some ''React'') [''Component''] ''react'',
      Import (Some ''Taro'') [] ''@tarojs/taro'',
      Class True ''Wallace'' (Some (Ident ''Component''))
        [Method ''componentDidMount'' [] [CallE (Member (Ident ''Taro'') ''request'') []]]]
   \<and> taroImportsPass [''Component''] (taroImportsPass [''Component''] importsFile)
       = taroImportsPass [''Component''] importsFile
   \<and> pageConfigPass False pageFile =
     ([Class True ''Index'' (Some (Ident ''Component'')) [Method ''render'' [] [Lit ''null'']]],
      Some [ExportDefault (Object [(''navigationBarTitleText'', Lit ''home'')])])
   \<and> fst (pageConfigPass False (fst (pageConfigPass False pageFile))) = fst (pageConfigPass False pageFile)"
  using passes_are_idempotent[of routerFile "[''Component'']" False]
    passes_are_idempotent[of importsFile "[''Component'']" False]
    passes_are_idempotent[of pageFile "[''Component'']" False]
  by (simp add: routerFile_def importsFile_def pageFile_def routerPass_def routerClass_def
      classUsesRouter_def declaresField_def instanceField_def importsSymbol_def
      taroImportsPass_def newShapePresent_def isLegacyImport_def splitImport_def treeExprs_def
      pageConfigPass_def defaultExports_def pageConfigs_def removeConfigs_def isFunction_def declared_def)

end
